theory Spec2Isabelle
  imports Complex_Main "HOL-Library.Word"
begin

section \<open>JavaScript values used by the BotID sources\<close>

text \<open>
  Strings are lists of code units, restricted to the range of \<^typ>\<open>char\<close> (0..255).
  A thrown exception is a value of \<open>exn\<close>; a computation that may throw has type
  \<open>exn + 'a\<close> with \<open>Inl\<close> for the throw.  Buffers are lists of bytes.
\<close>

datatype exn = Error string | TypeError string | SyntaxError string

type_synonym byte = "8 word"

subsection \<open>Case mapping\<close>

text \<open>
  \<open>String.prototype.toUpperCase\<close> and \<open>toLowerCase\<close> on the ASCII letters; HTTP method
  tokens and the header names of this package are ASCII.
\<close>

definition ascii_lower :: string where
  "ascii_lower = ''abcdefghijklmnopqrstuvwxyz''"

definition ascii_upper :: string where
  "ascii_upper = ''ABCDEFGHIJKLMNOPQRSTUVWXYZ''"

definition upper_char :: "char \<Rightarrow> char" where
  "upper_char c = (case map_of (zip ascii_lower ascii_upper) c of Some u \<Rightarrow> u | None \<Rightarrow> c)"

definition lower_char :: "char \<Rightarrow> char" where
  "lower_char c = (case map_of (zip ascii_upper ascii_lower) c of Some l \<Rightarrow> l | None \<Rightarrow> c)"

definition toUpperCase :: "string \<Rightarrow> string" where
  "toUpperCase s = map upper_char s"

definition toLowerCase :: "string \<Rightarrow> string" where
  "toLowerCase s = map lower_char s"

subsection \<open>Numbers\<close>

text \<open>
  A JavaScript number is \<open>NaN\<close>, an infinity or a finite value.  Finite values are kept
  exact; the rounding of binary64 is outside the embedding.  On integers of magnitude
  below \<open>2^53\<close>, where whole-second timestamps live, the two agree.
\<close>

datatype jsnum = NaN | PosInf | NegInf | Fin rat

fun js_sub :: "jsnum \<Rightarrow> jsnum \<Rightarrow> jsnum" where
  "js_sub (Fin a) (Fin b) = Fin (a - b)"
| "js_sub NaN y = NaN"
| "js_sub x NaN = NaN"
| "js_sub PosInf PosInf = NaN"
| "js_sub NegInf NegInf = NaN"
| "js_sub PosInf y = PosInf"
| "js_sub NegInf y = NegInf"
| "js_sub (Fin a) PosInf = NegInf"
| "js_sub (Fin a) NegInf = PosInf"

fun js_abs :: "jsnum \<Rightarrow> jsnum" where
  "js_abs NaN = NaN"
| "js_abs PosInf = PosInf"
| "js_abs NegInf = PosInf"
| "js_abs (Fin a) = Fin \<bar>a\<bar>"

text \<open>\<open>x <= y\<close>: false as soon as one side is \<open>NaN\<close>.\<close>

fun js_le :: "jsnum \<Rightarrow> jsnum \<Rightarrow> bool" where
  "js_le NaN y = False"
| "js_le x NaN = False"
| "js_le (Fin a) (Fin b) = (a \<le> b)"
| "js_le NegInf y = True"
| "js_le x PosInf = True"
| "js_le PosInf y = False"
| "js_le (Fin a) NegInf = False"

subsubsection \<open>Number to string\<close>

definition digit_chars :: string where
  "digit_chars = ''0123456789''"

fun show_nat :: "nat \<Rightarrow> string" where
  "show_nat n = (if n < 10 then [digit_chars ! n]
                 else show_nat (n div 10) @ [digit_chars ! (n mod 10)])"

declare show_nat.simps [simp del]

definition show_int :: "int \<Rightarrow> string" where
  "show_int i = (if i < 0 then CHR ''-'' # show_nat (nat (- i)) else show_nat (nat i))"

text \<open>
  \<open>Number::toString\<close> (what \<open>String(x)\<close> and a template literal apply).  An integer of
  magnitude below \<open>10^21\<close> prints as its decimal digits.  Every other finite value prints
  as the shortest decimal that reads back as the same binary64, which the host supplies
  (\<open>fmt\<close>).
\<close>

definition js_toString :: "(rat \<Rightarrow> string) \<Rightarrow> jsnum \<Rightarrow> string" where
  "js_toString fmt x =
     (case x of
        NaN \<Rightarrow> ''NaN''
      | PosInf \<Rightarrow> ''Infinity''
      | NegInf \<Rightarrow> ''-Infinity''
      | Fin r \<Rightarrow> (if r = of_int \<lfloor>r\<rfloor> \<and> \<bar>r\<bar> < 10 ^ 21 then show_int \<lfloor>r\<rfloor> else fmt r))"

subsubsection \<open>String to number\<close>

text \<open>
  \<open>Number(s)\<close> on a string (ECMA-262, StringToNumber): surrounding white space is
  dropped; the empty string is 0; \<open>0x\<close>, \<open>0o\<close> and \<open>0b\<close> introduce unsigned hexadecimal,
  octal and binary integers; otherwise an optionally signed \<open>Infinity\<close> or decimal
  literal with optional fraction and exponent; anything else is \<open>NaN\<close>.
\<close>

definition is_space :: "char \<Rightarrow> bool" where
  "is_space c = (of_char c \<in> {9, 10, 11, 12, 13, 32, 160 :: nat})"

definition trim :: "string \<Rightarrow> string" where
  "trim s = rev (dropWhile is_space (rev (dropWhile is_space s)))"

definition digit_table :: "(char \<times> nat) list" where
  "digit_table = zip ''0123456789abcdefABCDEF''
                     [0, 1, 2, 3, 4, 5, 6, 7, 8, 9, 10, 11, 12, 13, 14, 15, 10, 11, 12, 13, 14, 15]"

definition digit_val :: "char \<Rightarrow> nat" where
  "digit_val c = (case map_of digit_table c of Some v \<Rightarrow> v | None \<Rightarrow> 0)"

definition is_digit_of :: "nat \<Rightarrow> char \<Rightarrow> bool" where
  "is_digit_of radix c = (case map_of digit_table c of Some v \<Rightarrow> v < radix | None \<Rightarrow> False)"

definition digits_val :: "nat \<Rightarrow> string \<Rightarrow> nat" where
  "digits_val radix ds = foldl (\<lambda>a c. a * radix + digit_val c) 0 ds"

definition radix_literal :: "nat \<Rightarrow> string \<Rightarrow> jsnum" where
  "radix_literal radix ds =
     (if ds \<noteq> [] \<and> list_all (is_digit_of radix) ds then Fin (of_nat (digits_val radix ds))
      else NaN)"

definition decimal_digits :: "string \<Rightarrow> nat option" where
  "decimal_digits ds =
     (if ds \<noteq> [] \<and> list_all (is_digit_of 10) ds then Some (digits_val 10 ds) else None)"

definition exponent_part :: "string \<Rightarrow> int option" where
  "exponent_part s =
     (case s of
        [] \<Rightarrow> Some 0
      | c # ds \<Rightarrow>
          (if c = CHR ''e'' \<or> c = CHR ''E'' then
             (case ds of
                [] \<Rightarrow> None
              | d # ds' \<Rightarrow>
                  (if d = CHR ''+'' then map_option int (decimal_digits ds')
                   else if d = CHR ''-'' then map_option (\<lambda>n. - int n) (decimal_digits ds')
                   else map_option int (decimal_digits ds)))
           else None))"

definition scale10 :: "rat \<Rightarrow> int \<Rightarrow> rat" where
  "scale10 r e = (if 0 \<le> e then r * 10 ^ nat e else r / 10 ^ nat (- e))"

definition unsigned_decimal :: "string \<Rightarrow> rat option" where
  "unsigned_decimal u =
     (let ip = takeWhile (is_digit_of 10) u;
          r1 = dropWhile (is_digit_of 10) u;
          fp = (case r1 of
                  [] \<Rightarrow> []
                | c # r \<Rightarrow> if c = CHR ''.'' then takeWhile (is_digit_of 10) r else []);
          r2 = (case r1 of
                  [] \<Rightarrow> []
                | c # r \<Rightarrow> if c = CHR ''.'' then dropWhile (is_digit_of 10) r else r1)
      in if ip = [] \<and> fp = [] then None
         else (case exponent_part r2 of
                 None \<Rightarrow> None
               | Some e \<Rightarrow> Some (scale10 (of_nat (digits_val 10 (ip @ fp))) (e - int (length fp)))))"

definition decimal_literal :: "string \<Rightarrow> jsnum" where
  "decimal_literal t =
     (let neg = (take 1 t = ''-'');
          u = (if take 1 t = ''-'' \<or> take 1 t = ''+'' then drop 1 t else t)
      in if u = ''Infinity'' then (if neg then NegInf else PosInf)
         else (case unsigned_decimal u of
                 None \<Rightarrow> NaN
               | Some r \<Rightarrow> Fin (if neg then - r else r)))"

definition Number :: "string \<Rightarrow> jsnum" where
  "Number s =
     (let t = trim s in
      if t = [] then Fin 0
      else if take 2 t = ''0x'' \<or> take 2 t = ''0X'' then radix_literal 16 (drop 2 t)
      else if take 2 t = ''0o'' \<or> take 2 t = ''0O'' then radix_literal 8 (drop 2 t)
      else if take 2 t = ''0b'' \<or> take 2 t = ''0B'' then radix_literal 2 (drop 2 t)
      else decimal_literal t)"

subsection \<open>Buffers\<close>

text \<open>
  \<open>Buffer.from(s)\<close> encodes a string as UTF-8: a code unit below 128 is one byte, one in
  128..255 is two.
\<close>

definition utf8_unit :: "char \<Rightarrow> byte list" where
  "utf8_unit c =
     (let n = (of_char c :: nat) in
      if n < 128 then [of_nat n] else [of_nat (192 + n div 64), of_nat (128 + n mod 64)])"

definition Buffer_from :: "string \<Rightarrow> byte list" where
  "Buffer_from s = concat (map utf8_unit s)"

text \<open>
  \<open>buf.toString("hex")\<close> writes two lower-case digits per byte.  \<open>Buffer.from(s, "hex")\<close>
  never throws: it reads pairs of hexadecimal digits and stops at the first pair that is
  not one, or at a single trailing character.
\<close>

definition hex_chars :: string where
  "hex_chars = ''0123456789abcdef''"

definition toString_hex :: "byte list \<Rightarrow> string" where
  "toString_hex bs = concat (map (\<lambda>b. [hex_chars ! (unat b div 16), hex_chars ! (unat b mod 16)]) bs)"

fun Buffer_from_hex :: "string \<Rightarrow> byte list" where
  "Buffer_from_hex (a # b # rest) =
     (if is_digit_of 16 a \<and> is_digit_of 16 b
      then of_nat (digit_val a * 16 + digit_val b) # Buffer_from_hex rest
      else [])"
| "Buffer_from_hex s = []"

section \<open>verify.ts: the cryptographic core and the replay window\<close>

text \<open>
  The host: number formatting, the URL parser (\<open>new URL(s)\<close>, of which the code reads
  \<open>pathname\<close>; \<open>search\<close> is the query with its question mark) and \<open>node:crypto\<close>.  Key
  objects are values of the type parameters; every primitive that can throw returns a
  sum.  \<open>generateKeyPairSync\<close> draws from the host's entropy, here an explicit argument.
\<close>

record URL =
  pathname :: string
  search :: string

record ('pk, 'sk) host =
  fmt_number :: "rat \<Rightarrow> string"
  URL_new :: "string \<Rightarrow> exn + URL"
  createPublicKey :: "byte list \<Rightarrow> exn + 'pk"
  createPrivateKey :: "byte list \<Rightarrow> exn + 'sk"
  crypto_sign :: "byte list \<Rightarrow> 'sk \<Rightarrow> exn + byte list"
  crypto_verify :: "byte list \<Rightarrow> 'pk \<Rightarrow> byte list \<Rightarrow> exn + bool"
  generateKeyPairSync :: "nat \<Rightarrow> 'pk \<times> 'sk"
  export_spki :: "'pk \<Rightarrow> byte list"
  export_pkcs8 :: "'sk \<Rightarrow> byte list"

definition HEADER_BOT_ID :: string where
  "HEADER_BOT_ID = ''X-BotID''"

definition HEADER_SIGNATURE :: string where
  "HEADER_SIGNATURE = ''X-BotID-Signature''"

definition HEADER_TIMESTAMP :: string where
  "HEADER_TIMESTAMP = ''X-BotID-Timestamp''"

definition DEFAULT_API_URL :: string where
  "DEFAULT_API_URL = ''https://botid.net''"

definition TIMESTAMP_WINDOW_SECONDS :: rat where
  "TIMESTAMP_WINDOW_SECONDS = 300"

text \<open>\<open>(url ?? DEFAULT_API_URL).replace(/\/+$/, "")\<close>: trailing slashes are removed.\<close>

definition normalizeUrl :: "string option \<Rightarrow> string" where
  "normalizeUrl url =
     rev (dropWhile (\<lambda>c. c = CHR ''/'')
            (rev (case url of None \<Rightarrow> DEFAULT_API_URL | Some u \<Rightarrow> u)))"

text \<open>
  \<open>isTimestampValid\<close>; the first argument is the reading of \<open>Date.now()\<close> in
  milliseconds.
\<close>

definition isTimestampValid :: "int \<Rightarrow> jsnum \<Rightarrow> bool" where
  "isTimestampValid clock timestamp =
     (let now = Fin (of_int (clock div 1000))
      in js_le (js_abs (js_sub now timestamp)) (Fin TIMESTAMP_WINDOW_SECONDS))"

definition signMessage :: "('pk, 'sk) host \<Rightarrow> string \<Rightarrow> string \<Rightarrow> exn + string" where
  "signMessage h message privateKeyHex =
     (case createPrivateKey h (Buffer_from_hex privateKeyHex) of
        Inl e \<Rightarrow> Inl e
      | Inr privateKey \<Rightarrow>
          (case crypto_sign h (Buffer_from message) privateKey of
             Inl e \<Rightarrow> Inl e
           | Inr sig \<Rightarrow> Inr (toString_hex sig)))"

text \<open>The body of the \<open>try\<close> block of \<open>verifySignature\<close>.\<close>

definition verifySignature_try :: "('pk, 'sk) host \<Rightarrow> string \<Rightarrow> string \<Rightarrow> string \<Rightarrow> exn + bool" where
  "verifySignature_try h message signatureHex publicKeyHex =
     (case createPublicKey h (Buffer_from_hex publicKeyHex) of
        Inl e \<Rightarrow> Inl e
      | Inr publicKey \<Rightarrow>
          crypto_verify h (Buffer_from message) publicKey (Buffer_from_hex signatureHex))"

text \<open>\<open>verifySignature\<close>: the \<open>try\<close> block, and \<open>catch { return false; }\<close>.\<close>

definition verifySignature :: "('pk, 'sk) host \<Rightarrow> string \<Rightarrow> string \<Rightarrow> string \<Rightarrow> exn + bool" where
  "verifySignature h message signatureHex publicKeyHex =
     (case verifySignature_try h message signatureHex publicKeyHex of
        Inl e \<Rightarrow> Inr False
      | Inr b \<Rightarrow> Inr b)"

text \<open>\<open>generateKeypair\<close>: the pair \<open>(publicKey, privateKey)\<close>, both hex-encoded DER.\<close>

definition generateKeypair :: "('pk, 'sk) host \<Rightarrow> nat \<Rightarrow> string \<times> string" where
  "generateKeypair h entropy =
     (case generateKeyPairSync h entropy of
        (publicKey, privateKey) \<Rightarrow>
          (toString_hex (export_spki h publicKey), toString_hex (export_pkcs8 h privateKey)))"

section \<open>middleware.ts: the verification state machine\<close>

text \<open>
  A header of an Express request is one string or a list of strings; \<open>headers\<close> maps the
  lower-cased names.
\<close>

datatype header_value = Single string | Multi "string list"

record bot_info =
  bot_id :: string
  bot_name :: string
  deployer_id :: string

record VerificationResult =
  verified :: bool
  bot :: "bot_info option"
  timestamp :: jsnum
  error :: "string option"
  revoked :: "bool option"

record ExpressRequest =
  headers :: "string \<Rightarrow> header_value option"
  req_method :: "string option"
  url :: "string option"
  originalUrl :: "string option"

text \<open>An \<open>onUnverified\<close> callback, known by a name.\<close>

datatype handler = Handler string

record VerifyBotIDOptions =
  apiUrl :: "string option"
  requireVerified :: "bool option"
  onUnverified :: "handler option"

text \<open>The body the middleware passes to \<open>res.json\<close>.\<close>

record response_body =
  body_error :: string
  body_revoked :: "bool option"

text \<open>
  How an invocation hands control on: \<open>next()\<close>, a response of its own, or the
  \<open>onUnverified\<close> callback.  The three are taken to return normally.
\<close>

datatype action = Next | Respond nat response_body | Unverified handler

text \<open>
  What an invocation leaves behind: the action, the value of \<open>req.BotID\<close> (\<open>None\<close> when
  it was never assigned) and the URLs it fetched, in order.
\<close>

record mw_outcome =
  act :: action
  BotID :: "VerificationResult option"
  fetched :: "string list"

text \<open>
  The reply of \<open>GET /api/keys/{botId}\<close>.  \<open>fetch\<close> rejects (\<open>NetworkError\<close>) or resolves
  to a status and a body; the body is read with \<open>.json()\<close> at the type the code casts it
  to: not JSON at all, \<open>null\<close>, or an object with an optional boolean \<open>revoked\<close> and an
  optional string \<open>publicKey\<close>.
\<close>

datatype keys_body = NotJson | JsonNull | JsonObject "bool option" "string option"

datatype fetch_result = NetworkError | Response nat keys_body

text \<open>
  The world of one invocation: the clock (\<open>Date.now()\<close>, milliseconds) when it starts
  and when the lookup has settled, and the registry.
\<close>

record mw_env =
  clock :: int
  clock_after :: int
  registry :: "string \<Rightarrow> fetch_result"

definition getHeader :: "ExpressRequest \<Rightarrow> string \<Rightarrow> string option" where
  "getHeader req name =
     (case headers req (toLowerCase name) of
        None \<Rightarrow> None
      | Some (Multi vs) \<Rightarrow> (case vs of [] \<Rightarrow> None | v # rest \<Rightarrow> Some v)
      | Some (Single v) \<Rightarrow> Some v)"

text \<open>
  The view \<open>!x\<close> takes of a \<open>string | undefined\<close>: \<open>undefined\<close> and the empty string are
  falsy (\<open>None\<close>), every other string is itself.
\<close>

definition truthy :: "string option \<Rightarrow> string option" where
  "truthy x = (case x of None \<Rightarrow> None | Some s \<Rightarrow> if s = [] then None else Some s)"

definition now_seconds :: "int \<Rightarrow> jsnum" where
  "now_seconds ms = Fin (of_int (ms div 1000))"

definition enforcing :: "VerifyBotIDOptions \<Rightarrow> bool" where
  "enforcing options = (case requireVerified options of None \<Rightarrow> True | Some b \<Rightarrow> b)"

text \<open>With \<open>requireVerified\<close>: the callback when there is one, else the default response.\<close>

definition reject :: "VerifyBotIDOptions \<Rightarrow> nat \<Rightarrow> response_body \<Rightarrow> action" where
  "reject options code body =
     (case onUnverified options of Some f \<Rightarrow> Unverified f | None \<Rightarrow> Respond code body)"

definition plain_result :: "jsnum \<Rightarrow> VerificationResult" where
  "plain_result ts = \<lparr>verified = False, bot = None, timestamp = ts, error = None, revoked = None\<rparr>"

text \<open>
  \<open>`${timestamp}.${botId}.${reqMethod}.${reqPath}`\<close> with
  \<open>reqPath = (req.originalUrl ?? req.url ?? "/").split("?")[0]\<close> and
  \<open>reqMethod = (req.method ?? "GET").toUpperCase()\<close>.
\<close>

definition reqPath :: "ExpressRequest \<Rightarrow> string" where
  "reqPath req =
     takeWhile (\<lambda>c. c \<noteq> CHR ''?'')
       (case originalUrl req of
          Some u \<Rightarrow> u
        | None \<Rightarrow> (case url req of Some u \<Rightarrow> u | None \<Rightarrow> ''/''))"

definition reqMethod :: "ExpressRequest \<Rightarrow> string" where
  "reqMethod req = toUpperCase (case req_method req of Some m \<Rightarrow> m | None \<Rightarrow> ''GET'')"

definition request_message :: "(rat \<Rightarrow> string) \<Rightarrow> jsnum \<Rightarrow> string \<Rightarrow> string \<Rightarrow> string \<Rightarrow> string" where
  "request_message fmt ts botId meth path =
     js_toString fmt ts @ ''.'' @ botId @ ''.'' @ meth @ ''.'' @ path"

text \<open>\<open>res.ok\<close>: the status is in 200..299.\<close>

definition response_ok :: "nat \<Rightarrow> bool" where
  "response_ok status = (200 \<le> status \<and> status \<le> 299)"

text \<open>
  \<open>body.revoked\<close> after \<open>await keysRes.json()\<close>: the read throws on a body that is not
  JSON or is \<open>null\<close>.
\<close>

definition revoked_flag :: "keys_body \<Rightarrow> exn + bool" where
  "revoked_flag body =
     (case body of
        NotJson \<Rightarrow> Inl (SyntaxError ''Unexpected token'')
      | JsonNull \<Rightarrow> Inl (TypeError ''Cannot read properties of null'')
      | JsonObject r k \<Rightarrow> Inr (r = Some True))"

definition keys_url :: "VerifyBotIDOptions \<Rightarrow> string \<Rightarrow> string" where
  "keys_url options botId = normalizeUrl (apiUrl options) @ ''/api/keys/'' @ botId"

text \<open>
  The \<open>try\<close> block of the middleware, entered with the three header values and the
  parsed timestamp.  A throw inside it is \<open>Inl\<close>.
\<close>

definition lookup_and_verify ::
  "('pk, 'sk) host \<Rightarrow> VerifyBotIDOptions \<Rightarrow> mw_env \<Rightarrow> ExpressRequest \<Rightarrow>
   string \<Rightarrow> string \<Rightarrow> jsnum \<Rightarrow> exn + mw_outcome" where
  "lookup_and_verify h options env req botId signature ts =
     (case registry env (keys_url options botId) of
        NetworkError \<Rightarrow> Inl (TypeError ''fetch failed'')
      | Response status body \<Rightarrow>
          (case (if status = 403 then revoked_flag body else Inr False) of
             Inl e \<Rightarrow> Inl e
           | Inr True \<Rightarrow>
               Inr \<lparr>act = (if enforcing options
                            then reject options 403
                                   \<lparr>body_error = ''Bot identity has been revoked'', body_revoked = Some True\<rparr>
                            else Next),
                    BotID = Some \<lparr>verified = False, bot = None, timestamp = ts,
                                  error = Some ''Bot identity has been revoked'', revoked = Some True\<rparr>,
                    fetched = [keys_url options botId]\<rparr>
           | Inr False \<Rightarrow>
               (if \<not> response_ok status then
                  Inl (Error (''Public key lookup failed: '' @ show_nat status))
                else
                  (case body of
                     NotJson \<Rightarrow> Inl (SyntaxError ''Unexpected token'')
                   | JsonNull \<Rightarrow> Inl (TypeError ''Cannot destructure property of null'')
                   | JsonObject r publicKey \<Rightarrow>
                       (case (case publicKey of
                                None \<Rightarrow> Inr False
                              | Some k \<Rightarrow>
                                  verifySignature h
                                    (request_message (fmt_number h) ts botId (reqMethod req) (reqPath req))
                                    signature k) of
                          Inl e \<Rightarrow> Inl e
                        | Inr ok \<Rightarrow>
                            Inr \<lparr>act = (if \<not> ok \<and> enforcing options
                                         then reject options 403
                                                \<lparr>body_error = ''Bot identity verification failed'',
                                                 body_revoked = None\<rparr>
                                         else Next),
                                 BotID = Some (if ok
                                               then \<lparr>verified = True,
                                                     bot = Some \<lparr>bot_id = botId, bot_name = botId,
                                                                 deployer_id = []\<rparr>,
                                                     timestamp = ts, error = None, revoked = None\<rparr>
                                               else plain_result ts),
                                 fetched = [keys_url options botId]\<rparr>)))))"

text \<open>The \<open>catch\<close> block: whatever was thrown, the service counts as unavailable.\<close>

definition unavailable :: "VerifyBotIDOptions \<Rightarrow> mw_env \<Rightarrow> string \<Rightarrow> mw_outcome" where
  "unavailable options env botId =
     \<lparr>act = (if enforcing options
             then reject options 503
                    \<lparr>body_error = ''BotID verification service unavailable'', body_revoked = None\<rparr>
             else Next),
      BotID = Some \<lparr>verified = False, bot = None, timestamp = now_seconds (clock_after env),
                    error = Some ''Verification service unavailable'', revoked = None\<rparr>,
      fetched = [keys_url options botId]\<rparr>"

text \<open>
  \<open>verifyBotID(options)(req, res, next)\<close>.  The three header values are taken through
  \<open>truthy\<close>, so that the tests \<open>!botId && !signature && !timestampRaw\<close> and
  \<open>!botId || !signature || !timestampRaw\<close> read as: none present, and not all present.
\<close>

definition verifyBotID ::
  "('pk, 'sk) host \<Rightarrow> VerifyBotIDOptions \<Rightarrow> mw_env \<Rightarrow> ExpressRequest \<Rightarrow> mw_outcome" where
  "verifyBotID h options env req =
     (case (truthy (getHeader req HEADER_BOT_ID),
            truthy (getHeader req HEADER_SIGNATURE),
            truthy (getHeader req HEADER_TIMESTAMP)) of
        (None, None, None) \<Rightarrow>
          (if enforcing options
           then \<lparr>act = reject options 403
                         \<lparr>body_error = ''BotID verification required'', body_revoked = None\<rparr>,
                 BotID = None, fetched = []\<rparr>
           else \<lparr>act = Next, BotID = Some (plain_result (now_seconds (clock env))), fetched = []\<rparr>)
      | (Some botId, Some signature, Some timestampRaw) \<Rightarrow>
          (if isTimestampValid (clock env) (Number timestampRaw)
           then (case lookup_and_verify h options env req botId signature (Number timestampRaw) of
                   Inr out \<Rightarrow> out
                 | Inl e \<Rightarrow> unavailable options env botId)
           else \<lparr>act = (if enforcing options
                        then reject options 403
                               \<lparr>body_error = ''Timestamp outside valid window'', body_revoked = None\<rparr>
                        else Next),
                 BotID = Some \<lparr>verified = False, bot = None, timestamp = Number timestampRaw,
                               error = Some ''Timestamp outside valid window'', revoked = None\<rparr>,
                 fetched = []\<rparr>)
      | other \<Rightarrow>
          (if enforcing options
           then \<lparr>act = reject options 400
                         \<lparr>body_error = ''Incomplete BotID headers'', body_revoked = None\<rparr>,
                 BotID = None, fetched = []\<rparr>
           else \<lparr>act = Next, BotID = Some (plain_result (now_seconds (clock env))), fetched = []\<rparr>))"

section \<open>client.ts: the request signer\<close>

record BotIDClient =
  c_botId :: string
  c_privateKey :: string
  c_apiUrl :: string

text \<open>
  Of \<open>RequestInit\<close>, the method and the headers.  A \<open>Headers\<close> object maps lower-cased
  names to values.  \<open>set\<close> first strips leading and trailing HTTP white space (tab, LF,
  CR, space) from the value, throws a \<open>TypeError\<close> when a NUL, LF or CR is left in it, and
  otherwise replaces the value of the name.  The names this package sets are valid.
\<close>

record RequestInit =
  init_method :: "string option"
  init_headers :: "string \<Rightarrow> string option"

definition http_whitespace :: "char \<Rightarrow> bool" where
  "http_whitespace c = (of_char c \<in> {9, 10, 13, 32 :: nat})"

definition normalize_value :: "string \<Rightarrow> string" where
  "normalize_value v = rev (dropWhile http_whitespace (rev (dropWhile http_whitespace v)))"

definition forbidden_byte :: "char \<Rightarrow> bool" where
  "forbidden_byte c = (of_char c \<in> {0, 10, 13 :: nat})"

definition valid_value :: "string \<Rightarrow> bool" where
  "valid_value v = list_all (\<lambda>c. \<not> forbidden_byte c) v"

definition Headers_set ::
  "(string \<Rightarrow> string option) \<Rightarrow> string \<Rightarrow> string \<Rightarrow> exn + (string \<Rightarrow> string option)" where
  "Headers_set hs name v =
     (if valid_value (normalize_value v) then Inr (hs(toLowerCase name \<mapsto> normalize_value v))
      else Inl (TypeError ''Invalid header value''))"

text \<open>What \<open>BotIDClient.fetch\<close> hands to the global \<open>fetch\<close>.\<close>

record outgoing =
  out_url :: string
  out_method :: "string option"
  out_headers :: "string \<Rightarrow> string option"

text \<open>
  The string \<open>BotIDClient.fetch\<close> signs,
  \<open>`${timestamp}.${this.botId}.${method}.${pathname}`\<close>, for the clock reading \<open>ms\<close> and
  the parsed URL \<open>u\<close>.
\<close>

definition fetch_message :: "('pk, 'sk) host \<Rightarrow> BotIDClient \<Rightarrow> int \<Rightarrow> RequestInit \<Rightarrow> URL \<Rightarrow> string" where
  "fetch_message h c ms init u =
     js_toString (fmt_number h) (now_seconds ms) @ ''.'' @ c_botId c @ ''.''
       @ toUpperCase (case init_method init of None \<Rightarrow> ''GET'' | Some m \<Rightarrow> m) @ ''.'' @ pathname u"

definition BotIDClient_fetch ::
  "('pk, 'sk) host \<Rightarrow> BotIDClient \<Rightarrow> int \<Rightarrow> string \<Rightarrow> RequestInit \<Rightarrow> exn + outgoing" where
  "BotIDClient_fetch h c ms target init =
     (case URL_new h target of
        Inl e \<Rightarrow> Inl e
      | Inr u \<Rightarrow>
          (case signMessage h (fetch_message h c ms init u) (c_privateKey c) of
             Inl e \<Rightarrow> Inl e
           | Inr signature \<Rightarrow>
               (case Headers_set (init_headers init) HEADER_BOT_ID (c_botId c) of
                  Inl e \<Rightarrow> Inl e
                | Inr hs1 \<Rightarrow>
                    (case Headers_set hs1 HEADER_SIGNATURE signature of
                       Inl e \<Rightarrow> Inl e
                     | Inr hs2 \<Rightarrow>
                         (case Headers_set hs2 HEADER_TIMESTAMP
                                 (js_toString (fmt_number h) (now_seconds ms)) of
                            Inl e \<Rightarrow> Inl e
                          | Inr hs3 \<Rightarrow>
                              Inr \<lparr>out_url = target, out_method = init_method init,
                                   out_headers = hs3\<rparr>)))))"

section \<open>store.ts: the credential store\<close>

text \<open>
  Values as \<open>JSON.parse\<close> returns them.  A property read throws on \<open>null\<close> and
  \<open>undefined\<close> (\<open>None\<close>), finds the own properties of an object, and is \<open>undefined\<close>
  elsewhere; properties inherited from the built-in prototypes, and the indices and
  length of strings and arrays, are not modelled.
\<close>

datatype json = JNull | JBool bool | JNum rat | JStr string | JArr "json list" | JObj "(string \<times> json) list"

definition js_get :: "json option \<Rightarrow> string \<Rightarrow> exn + json option" where
  "js_get v k =
     (case v of
        None \<Rightarrow> Inl (TypeError ''Cannot read properties of undefined'')
      | Some JNull \<Rightarrow> Inl (TypeError ''Cannot read properties of null'')
      | Some (JObj kvs) \<Rightarrow> Inr (map_of kvs k)
      | Some other \<Rightarrow> Inr None)"

definition Object_keys :: "json option \<Rightarrow> exn + string list" where
  "Object_keys v =
     (case v of
        None \<Rightarrow> Inl (TypeError ''Cannot convert undefined or null to object'')
      | Some JNull \<Rightarrow> Inl (TypeError ''Cannot convert undefined or null to object'')
      | Some (JObj kvs) \<Rightarrow> Inr (map fst kvs)
      | Some (JArr xs) \<Rightarrow> Inr (map show_nat [0..<length xs])
      | Some (JStr s) \<Rightarrow> Inr (map show_nat [0..<length s])
      | Some other \<Rightarrow> Inr [])"

text \<open>
  A file is known by what reading it gives: \<open>readFileSync\<close> throws (\<open>Unreadable\<close>), the
  text is not JSON so that \<open>JSON.parse\<close> throws (\<open>Garbled\<close>), or the text parses to a
  value.  The store directory \<open>~/.botid\<close> holds two files, each with its mode; writes
  succeed.
\<close>

datatype file_content = Unreadable | Garbled | Parses json

record fs =
  dir_mode :: "nat option"
  credentials_file :: "(nat \<times> file_content) option"
  auth_file :: "(nat \<times> file_content) option"

record AuthSession =
  accessToken :: string
  session_apiUrl :: string
  authenticatedAt :: string

definition ensureDir :: "fs \<Rightarrow> fs" where
  "ensureDir f = (case dir_mode f of None \<Rightarrow> f\<lparr>dir_mode := Some 448\<rparr> | Some m \<Rightarrow> f)"

text \<open>\<open>writeFileSync(path, text, {mode})\<close>: the mode applies when the file is created.\<close>

definition writeFileSync :: "(nat \<times> file_content) option \<Rightarrow> file_content \<Rightarrow> nat \<Rightarrow> (nat \<times> file_content) option" where
  "writeFileSync old content mode =
     (case old of None \<Rightarrow> Some (mode, content) | Some (m, c) \<Rightarrow> Some (m, content))"

definition empty_store :: json where
  "empty_store = JObj [(''agents'', JObj [])]"

text \<open>
  \<open>readStore\<close> returns what \<open>JSON.parse\<close> gave, cast to \<open>CredentialsStore\<close> without a
  check, with the file system after \<open>ensureDir\<close>.
\<close>

definition readStore :: "fs \<Rightarrow> json \<times> fs" where
  "readStore f =
     (case credentials_file (ensureDir f) of
        None \<Rightarrow> (empty_store, ensureDir f)
      | Some (m, Parses v) \<Rightarrow> (v, ensureDir f)
      | Some (m, other) \<Rightarrow> (empty_store, ensureDir f))"

text \<open>\<open>readStore().agents[name]\<close>\<close>

definition getCredentials :: "string \<Rightarrow> fs \<Rightarrow> (exn + json option) \<times> fs" where
  "getCredentials name f =
     (case js_get (Some (fst (readStore f))) ''agents'' of
        Inl e \<Rightarrow> (Inl e, snd (readStore f))
      | Inr agents \<Rightarrow> (js_get agents name, snd (readStore f)))"

text \<open>\<open>Object.keys(readStore().agents)\<close>\<close>

definition listAgents :: "fs \<Rightarrow> (exn + string list) \<times> fs" where
  "listAgents f =
     (case js_get (Some (fst (readStore f))) ''agents'' of
        Inl e \<Rightarrow> (Inl e, snd (readStore f))
      | Inr agents \<Rightarrow> (Object_keys agents, snd (readStore f)))"

definition JSON_of_session :: "AuthSession \<Rightarrow> json" where
  "JSON_of_session s =
     JObj [(''accessToken'', JStr (accessToken s)),
           (''apiUrl'', JStr (session_apiUrl s)),
           (''authenticatedAt'', JStr (authenticatedAt s))]"

definition saveAuthSession :: "AuthSession \<Rightarrow> fs \<Rightarrow> fs" where
  "saveAuthSession session f =
     (ensureDir f)\<lparr>auth_file := writeFileSync (auth_file (ensureDir f)) (Parses (JSON_of_session session)) 384\<rparr>"

text \<open>\<open>getAuthSession\<close> returns the parsed value, cast to \<open>AuthSession\<close> without a check.\<close>

definition getAuthSession :: "fs \<Rightarrow> json option \<times> fs" where
  "getAuthSession f =
     (case auth_file (ensureDir f) of
        None \<Rightarrow> (None, ensureDir f)
      | Some (m, Parses v) \<Rightarrow> (Some v, ensureDir f)
      | Some (m, other) \<Rightarrow> (None, ensureDir f))"

section \<open>auth.ts: the device authorization flow\<close>

record DeviceCodeResponse =
  deviceCode :: string
  userCode :: string
  verificationUrl :: string
  expiresIn :: int
  interval :: int

record PollResponse =
  status :: string
  poll_accessToken :: "string option"
  poll_error :: "string option"

text \<open>
  A reply of the registry to one request: \<open>fetch\<close> rejects, or resolves to a status and a
  body, which \<open>.json()\<close> reads at the type the code casts it to (\<open>None\<close>: not JSON).
\<close>

datatype 'a http_reply = FetchFails | Reply nat "'a option"

definition requestDeviceCode :: "DeviceCodeResponse http_reply \<Rightarrow> exn + DeviceCodeResponse" where
  "requestDeviceCode reply =
     (case reply of
        FetchFails \<Rightarrow> Inl (TypeError ''fetch failed'')
      | Reply st body \<Rightarrow>
          (if \<not> response_ok st
           then Inl (Error (''Failed to request device code ('' @ show_nat st @ '')''))
           else (case body of
                   None \<Rightarrow> Inl (SyntaxError ''Unexpected token'')
                 | Some r \<Rightarrow> Inr r)))"

definition pollDeviceAuth :: "PollResponse http_reply \<Rightarrow> exn + PollResponse" where
  "pollDeviceAuth reply =
     (case reply of
        FetchFails \<Rightarrow> Inl (TypeError ''fetch failed'')
      | Reply st body \<Rightarrow>
          (if \<not> response_ok st \<and> st \<noteq> 202
           then Inl (Error (''Device poll failed ('' @ show_nat st @ '')''))
           else (case body of
                   None \<Rightarrow> Inl (SyntaxError ''Unexpected token'')
                 | Some r \<Rightarrow> Inr r)))"

text \<open>
  One turn of the poll loop as the world presents it: the reading of \<open>Date.now()\<close> at the
  loop test, the registry's reply to the poll that follows the sleep, and the reading of
  \<open>new Date().toISOString()\<close> should the session be saved in this turn.
\<close>

record poll_event =
  at_check :: int
  poll_reply :: "PollResponse http_reply"
  saved_at :: string

text \<open>
  The world of one \<open>deviceLogin\<close>: the reply to the device-code request, whether the
  block that opens the browser runs to its end, the reading of \<open>Date.now()\<close> that becomes
  \<open>startTime\<close>, and the turns of the poll loop.
\<close>

record device_world =
  code_reply :: "DeviceCodeResponse http_reply"
  browser_opens :: bool
  started :: int
  polls :: "poll_event list"

record DeviceLoginOptions =
  dl_apiUrl :: "string option"
  has_onOpen :: bool

text \<open>The callbacks an invocation made, in order.\<close>

datatype notice = Prompt string string | Opened

text \<open>
  The \<open>while\<close> loop of \<open>deviceLogin\<close>.  \<open>Inr token\<close> is the returned token, \<open>Inl\<close> the
  thrown error; \<open>None\<close> says that the listed turns end while the loop is still polling.
\<close>

fun poll_loop :: "string \<Rightarrow> DeviceCodeResponse \<Rightarrow> int \<Rightarrow> poll_event list \<Rightarrow> fs \<Rightarrow> ((exn + string) \<times> fs) option" where
  "poll_loop base code startTime [] f = None"
| "poll_loop base code startTime (ev # rest) f =
     (if at_check ev - startTime < expiresIn code * 1000 then
        (case pollDeviceAuth (poll_reply ev) of
           Inl e \<Rightarrow> Some (Inl e, f)
         | Inr poll \<Rightarrow>
             (case (if status poll = ''complete'' then truthy (poll_accessToken poll) else None) of
                Some token \<Rightarrow>
                  Some (Inr token,
                        saveAuthSession
                          \<lparr>accessToken = token, session_apiUrl = base, authenticatedAt = saved_at ev\<rparr> f)
              | None \<Rightarrow>
                  (if status poll = ''expired'' then
                     Some (Inl (Error ''Device code expired. Please try again.''), f)
                   else if status poll = ''consumed'' then
                     Some (Inl (Error ''Device code already used. Please try again.''), f)
                   else if status poll = ''error'' then
                     Some (Inl (Error (case poll_error poll of
                                         None \<Rightarrow> ''Authentication failed''
                                       | Some msg \<Rightarrow> msg)), f)
                   else poll_loop base code startTime rest f)))
      else Some (Inl (Error ''Authentication timed out. Please try again.''), f))"

definition deviceLogin :: "DeviceLoginOptions \<Rightarrow> device_world \<Rightarrow> fs \<Rightarrow> notice list \<times> ((exn + string) \<times> fs) option" where
  "deviceLogin options w f =
     (case requestDeviceCode (code_reply w) of
        Inl e \<Rightarrow> ([], Some (Inl e, f))
      | Inr code \<Rightarrow>
          (Prompt (verificationUrl code) (userCode code)
             # (if browser_opens w \<and> has_onOpen options then [Opened] else []),
           poll_loop (normalizeUrl (dl_apiUrl options)) code (started w) (polls w) f))"

section \<open>The signed message in the words of the specification\<close>

text \<open>
  The string \<open>{timestamp}.{botId}.{METHOD}.{path}\<close>: joined by dots, the timestamp in
  whole seconds, the method upper-cased, the path without query and fragment.
\<close>

definition spec_signed_message :: "int \<Rightarrow> string \<Rightarrow> string \<Rightarrow> string \<Rightarrow> string" where
  "spec_signed_message seconds botId meth path =
     show_int seconds @ ''.'' @ botId @ ''.'' @ toUpperCase meth @ ''.'' @ path"

section \<open>Concrete inputs\<close>

text \<open>
  A request as an Express server receives what \<open>BotIDClient.fetch\<close> sent: the headers,
  the method token as it is on the wire, and the path and query of the URL as the
  request target.
\<close>

definition delivered :: "outgoing \<Rightarrow> URL \<Rightarrow> string \<Rightarrow> ExpressRequest" where
  "delivered out u wire =
     \<lparr>headers = (\<lambda>name. map_option Single (out_headers out name)),
      req_method = Some wire,
      url = Some (pathname u @ search u),
      originalUrl = Some (pathname u @ search u)\<rparr>"

text \<open>
  A decimal numeral as \<open>Number\<close> reads one: an optional sign, then digits with an
  optional fraction and exponent, white space around it allowed.
\<close>

definition is_decimal_number :: "string \<Rightarrow> bool" where
  "is_decimal_number s =
     (case unsigned_decimal
             (if take 1 (trim s) = ''-'' \<or> take 1 (trim s) = ''+'' then drop 1 (trim s) else trim s) of
        None \<Rightarrow> False
      | Some r \<Rightarrow> True)"

text \<open>
  A host to run the definitions on.  Its keys are 32 bytes behind the DER prefixes of
  Ed25519 keys; its signature of a message under a key is the key followed by the
  message, which has the shape of a signature scheme and none of its security.  It
  parses one URL.
\<close>

definition demo_spki_prefix :: "byte list" where
  "demo_spki_prefix = [0x30, 0x2a, 0x30, 0x05, 0x06, 0x03, 0x2b, 0x65, 0x70, 0x03, 0x21, 0x00]"

definition demo_pkcs8_prefix :: "byte list" where
  "demo_pkcs8_prefix =
     [0x30, 0x2e, 0x02, 0x01, 0x00, 0x30, 0x05, 0x06, 0x03, 0x2b, 0x65, 0x70, 0x04, 0x22, 0x04, 0x20]"

definition demo_key :: "nat \<Rightarrow> byte list" where
  "demo_key n = replicate 32 (of_nat n)"

definition demo_target :: string where
  "demo_target = ''https://api.example.com/data?q=1''"

definition demo_url :: URL where
  "demo_url = \<lparr>pathname = ''/data'', search = ''?q=1''\<rparr>"

definition demo_host :: "(byte list, byte list) host" where
  "demo_host =
     \<lparr>fmt_number = (\<lambda>r. ''?''),
      URL_new = (\<lambda>s. if s = demo_target then Inr demo_url else Inl (TypeError ''Invalid URL'')),
      createPublicKey =
        (\<lambda>bs. if take 12 bs = demo_spki_prefix \<and> length bs = 44 then Inr (drop 12 bs)
              else Inl (Error ''unsupported'')),
      createPrivateKey =
        (\<lambda>bs. if take 16 bs = demo_pkcs8_prefix \<and> length bs = 48 then Inr (drop 16 bs)
              else Inl (Error ''unsupported'')),
      crypto_sign = (\<lambda>m sk. Inr (sk @ m)),
      crypto_verify = (\<lambda>m pk sg. Inr (sg = pk @ m)),
      generateKeyPairSync = (\<lambda>n. (demo_key n, demo_key n)),
      export_spki = (\<lambda>pk. demo_spki_prefix @ pk),
      export_pkcs8 = (\<lambda>sk. demo_pkcs8_prefix @ sk)\<rparr>"

definition default_options :: VerifyBotIDOptions where
  "default_options = \<lparr>apiUrl = None, requireVerified = None, onUnverified = None\<rparr>"

definition passive_options :: VerifyBotIDOptions where
  "passive_options = \<lparr>apiUrl = None, requireVerified = Some False, onUnverified = None\<rparr>"

text \<open>A request for \<open>GET /data\<close> with the given headers.\<close>

definition get_data :: "(string \<Rightarrow> header_value option) \<Rightarrow> ExpressRequest" where
  "get_data hs = \<lparr>headers = hs, req_method = Some ''GET'', url = Some ''/data'', originalUrl = Some ''/data''\<rparr>"

text \<open>The three identity headers, with the given timestamp header.\<close>

definition identity_headers :: "string \<Rightarrow> (string \<Rightarrow> header_value option)" where
  "identity_headers ts =
     [''x-botid'' \<mapsto> Single ''bot_1'', ''x-botid-signature'' \<mapsto> Single ''00'',
      ''x-botid-timestamp'' \<mapsto> Single ts]"

definition empty_headers :: "string \<Rightarrow> header_value option" where
  "empty_headers =
     [''x-botid'' \<mapsto> Single [], ''x-botid-signature'' \<mapsto> Single [], ''x-botid-timestamp'' \<mapsto> Single []]"

text \<open>A world whose clock reads 1700000000 seconds and whose registry reports revocation.\<close>

definition revoking_env :: mw_env where
  "revoking_env =
     \<lparr>clock = 1700000000000, clock_after = 1700000000250,
      registry = (\<lambda>target. Response 403 (JsonObject (Some True) None))\<rparr>"

definition demo_client :: BotIDClient where
  "demo_client =
     \<lparr>c_botId = ''bot_1'', c_privateKey = snd (generateKeypair demo_host 7), c_apiUrl = DEFAULT_API_URL\<rparr>"

definition demo_init :: RequestInit where
  "demo_init = \<lparr>init_method = Some ''post'', init_headers = Map.empty\<rparr>"

definition demo_out :: outgoing where
  "demo_out =
     (case BotIDClient_fetch demo_host demo_client 1700000000123 demo_target demo_init of
        Inr out \<Rightarrow> out
      | Inl e \<Rightarrow> \<lparr>out_url = [], out_method = None, out_headers = Map.empty\<rparr>)"

text \<open>
  A client whose \<open>botId\<close> ends in a line feed, as one read from a file does, and what it
  sends for the same request.
\<close>

definition nl_client :: BotIDClient where
  "nl_client = demo_client\<lparr>c_botId := ''bot_1'' @ [CHR 0x0A]\<rparr>"

definition nl_out :: outgoing where
  "nl_out =
     (case BotIDClient_fetch demo_host nl_client 1700000000123 demo_target demo_init of
        Inr out \<Rightarrow> out
      | Inl e \<Rightarrow> \<lparr>out_url = [], out_method = None, out_headers = Map.empty\<rparr>)"

text \<open>
  A world whose clock reads 1700000000 seconds and whose registry serves the public key
  of the demo client.
\<close>

definition serving_env :: mw_env where
  "serving_env =
     \<lparr>clock = 1700000000400, clock_after = 1700000000650,
      registry = (\<lambda>target. Response 200 (JsonObject None (Some (fst (generateKeypair demo_host 7)))))\<rparr>"

text \<open>A store directory whose two files both hold the JSON text \<open>{}\<close>.\<close>

definition braces_fs :: fs where
  "braces_fs =
     \<lparr>dir_mode = Some 448,
      credentials_file = Some (384, Parses (JObj [])),
      auth_file = Some (384, Parses (JObj []))\<rparr>"

definition empty_fs :: fs where
  "empty_fs = \<lparr>dir_mode = None, credentials_file = None, auth_file = None\<rparr>"

definition demo_code :: DeviceCodeResponse where
  "demo_code =
     \<lparr>deviceCode = ''dc_abc'', userCode = ''ABCD-1234'', verificationUrl = ''https://botid.net/device'',
      expiresIn = 900, interval = 5\<rparr>"

definition pending_turn :: poll_event where
  "pending_turn =
     \<lparr>at_check = 1700000000001,
      poll_reply = Reply 202 (Some \<lparr>status = ''pending'', poll_accessToken = None, poll_error = None\<rparr>),
      saved_at = ''2023-11-14T22:13:25.002Z''\<rparr>"

definition complete_turn :: poll_event where
  "complete_turn =
     \<lparr>at_check = 1700000005003,
      poll_reply = Reply 200 (Some \<lparr>status = ''complete'', poll_accessToken = Some ''token_xyz'',
                                     poll_error = None\<rparr>),
      saved_at = ''2023-11-14T22:13:30.004Z''\<rparr>"

definition demo_world :: device_world where
  "demo_world =
     \<lparr>code_reply = Reply 200 (Some demo_code), browser_opens = True, started = 1700000000000,
      polls = [pending_turn, complete_turn]\<rparr>"

text \<open>
  A turn after which the poll loop goes round again: the loop test passes, the poll
  returns, and its reply is neither a completion with a token nor one of the three
  terminal failures.
\<close>

definition keeps_polling :: "DeviceCodeResponse \<Rightarrow> int \<Rightarrow> poll_event \<Rightarrow> bool" where
  "keeps_polling code startTime ev =
     (at_check ev - startTime < expiresIn code * 1000
      \<and> (case pollDeviceAuth (poll_reply ev) of
            Inl e \<Rightarrow> False
          | Inr poll \<Rightarrow>
              (if status poll = ''complete'' then truthy (poll_accessToken poll) = None
               else status poll \<noteq> ''expired'' \<and> status poll \<noteq> ''consumed'' \<and> status poll \<noteq> ''error'')))"

section \<open>Facts used by the claims\<close>

subsection \<open>Facts about the JavaScript values\<close>

lemma hex_digit_ok:
  assumes "n < 16"
  shows "is_digit_of 16 (hex_chars ! n) \<and> digit_val (hex_chars ! n) = n"
proof -
  have "list_all (\<lambda>n. is_digit_of 16 (hex_chars ! n) \<and> digit_val (hex_chars ! n) = n) [0..<16]"
    by code_simp
  with assms show ?thesis by (simp add: list_all_iff)
qed

lemma byte_nibbles: "unat (b :: byte) div 16 < 16" "unat b mod 16 < 16"
proof -
  have "unat b < 256" using unsigned_less [of b, where ?'a = nat] by simp
  then show "unat b div 16 < 16" by simp
  show "unat b mod 16 < 16" by simp
qed

lemma byte_of_nibbles: "(of_nat (unat (b :: byte) div 16 * 16 + unat b mod 16) :: byte) = b"
  by simp

lemma hex_roundtrip: "Buffer_from_hex (toString_hex bs) = bs"
proof (induction bs)
  case Nil
  then show ?case by (simp add: toString_hex_def)
next
  case (Cons b bs)
  have "toString_hex (b # bs) = hex_chars ! (unat b div 16) # hex_chars ! (unat b mod 16) # toString_hex bs"
    by (simp add: toString_hex_def)
  with Cons show ?case
    by (simp add: hex_digit_ok byte_nibbles byte_of_nibbles del: of_nat_add of_nat_mult)
qed

lemma upper_char_idem: "upper_char (upper_char c) = upper_char c"
  by (auto simp add: upper_char_def ascii_lower_def ascii_upper_def)

lemma toUpperCase_idem: "toUpperCase (toUpperCase s) = toUpperCase s"
  by (simp add: toUpperCase_def upper_char_idem)

lemma reqPath_received:
  assumes "originalUrl req = Some (p @ q)" "CHR ''?'' \<notin> set p" "q = [] \<or> hd q = CHR ''?''"
  shows "reqPath req = p"
proof -
  have "takeWhile (\<lambda>c. c \<noteq> CHR ''?'') q = []"
    using assms(3) by (cases q) auto
  moreover have "takeWhile (\<lambda>c. c \<noteq> CHR ''?'') (p @ q) = p @ takeWhile (\<lambda>c. c \<noteq> CHR ''?'') q"
    using assms(2) by (intro takeWhile_append2) auto
  ultimately show ?thesis using assms(1) by (simp add: reqPath_def)
qed

lemma is_decimal_digit: "is_digit_of 10 c = (c \<in> set digit_chars)"
  by (auto simp add: is_digit_of_def digit_table_def digit_chars_def split: if_splits)

lemma digit_chars_nth:
  assumes "n < 10"
  shows "is_digit_of 10 (digit_chars ! n) \<and> digit_val (digit_chars ! n) = n"
proof -
  have "list_all (\<lambda>n. is_digit_of 10 (digit_chars ! n) \<and> digit_val (digit_chars ! n) = n) [0..<10]"
    by code_simp
  with assms show ?thesis by (simp add: list_all_iff)
qed

lemma show_nat_digits: "list_all (is_digit_of 10) (show_nat n) \<and> show_nat n \<noteq> []"
proof (induction n rule: show_nat.induct)
  case (1 n)
  show ?case
  proof (cases "n < 10")
    case True
    then show ?thesis by (simp add: show_nat.simps [of n] digit_chars_nth)
  next
    case False
    with 1 show ?thesis by (simp add: show_nat.simps [of n] digit_chars_nth)
  qed
qed

lemma digits_val_snoc: "digits_val r (xs @ [c]) = digits_val r xs * r + digit_val c"
  by (simp add: digits_val_def)

lemma digits_val_show_nat: "digits_val 10 (show_nat n) = n"
proof (induction n rule: show_nat.induct)
  case (1 n)
  show ?case
  proof (cases "n < 10")
    case True
    then show ?thesis by (simp add: show_nat.simps [of n] digit_chars_nth digits_val_def)
  next
    case False
    with 1 show ?thesis by (simp add: show_nat.simps [of n] digit_chars_nth digits_val_snoc)
  qed
qed

lemma digit_not_space: "is_digit_of 10 c \<Longrightarrow> \<not> is_space c"
  by (auto simp add: is_decimal_digit digit_chars_def is_space_def)

lemma trim_id:
  assumes "s \<noteq> []" "\<not> is_space (hd s)" "\<not> is_space (last s)"
  shows "trim s = s"
proof -
  have a: "dropWhile is_space s = s" using assms(1,2) by (simp add: dropWhile_eq_self_iff)
  have "dropWhile is_space (rev s) = rev s" using assms(1,3) by (simp add: dropWhile_eq_self_iff hd_rev)
  with a show ?thesis by (simp add: trim_def)
qed

lemma unsigned_decimal_digits:
  assumes "list_all (is_digit_of 10) u" "u \<noteq> []"
  shows "unsigned_decimal u = Some (of_nat (digits_val 10 u))"
proof -
  have tw: "takeWhile (is_digit_of 10) u = u" and dw: "dropWhile (is_digit_of 10) u = []"
    using assms(1) by (simp_all add: list_all_iff)
  show ?thesis using assms(2)
    by (simp add: unsigned_decimal_def Let_def tw dw exponent_part_def scale10_def)
qed

lemma show_nat_head:
  "take (Suc 0) (show_nat n) \<noteq> ''-''" "take (Suc 0) (show_nat n) \<noteq> ''+''" "show_nat n \<noteq> ''Infinity''"
proof -
  obtain c cs where s: "show_nat n = c # cs" using show_nat_digits [of n] by (cases "show_nat n") auto
  then have c: "is_digit_of 10 c" using show_nat_digits [of n] by simp
  then have "c \<noteq> CHR ''-''" "c \<noteq> CHR ''+''" "c \<noteq> CHR ''I''"
    by (auto simp add: is_decimal_digit digit_chars_def)
  with s show "take (Suc 0) (show_nat n) \<noteq> ''-''" "take (Suc 0) (show_nat n) \<noteq> ''+''" "show_nat n \<noteq> ''Infinity''"
    by simp_all
qed

lemma decimal_literal_show_nat: "decimal_literal (show_nat n) = Fin (of_nat n)"
  using unsigned_decimal_digits [of "show_nat n"] show_nat_digits [of n]
  by (simp add: decimal_literal_def Let_def show_nat_head digits_val_show_nat)

lemma decimal_literal_minus: "decimal_literal (CHR ''-'' # show_nat n) = Fin (- of_nat n)"
  using unsigned_decimal_digits [of "show_nat n"] show_nat_digits [of n]
  by (simp add: decimal_literal_def Let_def show_nat_head digits_val_show_nat)

lemma no_radix_prefix:
  assumes "list_all (is_digit_of 10) t" "\<not> is_digit_of 10 b"
  shows "take 2 t \<noteq> [a, b]"
  using assms by (cases t; cases "tl t") auto

lemma radix_letters:
  "\<not> is_digit_of 10 (CHR ''x'')" "\<not> is_digit_of 10 (CHR ''X'')" "\<not> is_digit_of 10 (CHR ''o'')"
  "\<not> is_digit_of 10 (CHR ''O'')" "\<not> is_digit_of 10 (CHR ''b'')" "\<not> is_digit_of 10 (CHR ''B'')"
  by (simp_all add: is_decimal_digit digit_chars_def)

lemma Number_show_nat: "Number (show_nat n) = Fin (of_nat n)"
proof -
  let ?t = "show_nat n"
  have d: "list_all (is_digit_of 10) ?t" "?t \<noteq> []" using show_nat_digits [of n] by simp_all
  then have "is_digit_of 10 (hd ?t)" "is_digit_of 10 (last ?t)" by (simp_all add: list_all_iff)
  then have "trim ?t = ?t" using d(2) by (intro trim_id) (simp_all add: digit_not_space)
  then show ?thesis
    using d no_radix_prefix [OF d(1)] radix_letters
    by (simp add: Number_def decimal_literal_show_nat)
qed

lemma Number_minus_show_nat: "Number (CHR ''-'' # show_nat n) = Fin (- of_nat n)"
proof -
  let ?t = "CHR ''-'' # show_nat n"
  have d: "list_all (is_digit_of 10) (show_nat n)" "show_nat n \<noteq> []" using show_nat_digits [of n] by simp_all
  then have "is_digit_of 10 (last (show_nat n))" by (simp_all add: list_all_iff)
  then have "\<not> is_space (last ?t)" using d(2) by (simp add: digit_not_space)
  moreover have "\<not> is_space (hd ?t)" by (simp add: is_space_def)
  ultimately have "trim ?t = ?t" by (intro trim_id) simp_all
  then show ?thesis
    by (simp add: Number_def decimal_literal_minus)
qed

lemma Number_show_int: "Number (show_int i) = Fin (of_int i)"
proof (cases "i < 0")
  case True
  with Number_minus_show_nat [of "nat (- i)"] show ?thesis by (simp add: show_int_def)
next
  case False
  with Number_show_nat [of "nat i"] show ?thesis by (simp add: show_int_def)
qed

lemma js_toString_int: "\<bar>i\<bar> < 10 ^ 21 \<Longrightarrow> js_toString fmt (Fin (of_int i)) = show_int i"
proof -
  assume "\<bar>i\<bar> < 10 ^ 21"
  then have "\<bar>(of_int i :: rat)\<bar> < 10 ^ 21"
    by (metis of_int_abs of_int_less_iff of_int_numeral of_int_power)
  then show ?thesis by (simp add: js_toString_def)
qed

lemma timestamp_roundtrip:
  assumes "\<bar>ms\<bar> \<le> 8640000000000000"
  shows "Number (js_toString fmt (now_seconds ms)) = now_seconds ms"
    and "js_toString fmt (now_seconds ms) = show_int (ms div 1000)"
proof -
  have "\<bar>ms div 1000\<bar> < 10 ^ 21" using assms by (simp add: abs_less_iff) linarith
  then show "js_toString fmt (now_seconds ms) = show_int (ms div 1000)"
    by (simp add: now_seconds_def js_toString_int)
  then show "Number (js_toString fmt (now_seconds ms)) = now_seconds ms"
    by (simp add: Number_show_int now_seconds_def)
qed

subsection \<open>Facts about the middleware\<close>

lemma isTimestampValid_Fin:
  "isTimestampValid ms (Fin t) = (\<bar>of_int (ms div 1000) - t\<bar> \<le> 300)"
  by (simp add: isTimestampValid_def TIMESTAMP_WINDOW_SECONDS_def)

lemma isTimestampValid_NaN: "\<not> isTimestampValid ms NaN"
  by (simp add: isTimestampValid_def)

lemma header_names:
  "toLowerCase HEADER_BOT_ID = ''x-botid''"
  "toLowerCase HEADER_SIGNATURE = ''x-botid-signature''"
  "toLowerCase HEADER_TIMESTAMP = ''x-botid-timestamp''"
  by (simp_all add: toLowerCase_def lower_char_def ascii_lower_def ascii_upper_def
        HEADER_BOT_ID_def HEADER_SIGNATURE_def HEADER_TIMESTAMP_def)

lemma default_keys_url: "keys_url default_options ''bot_1'' = ''https://botid.net/api/keys/bot_1''"
  by (simp add: keys_url_def default_options_def normalizeUrl_def DEFAULT_API_URL_def)

lemma identity_headers_present:
  "ts \<noteq> [] \<Longrightarrow> truthy (getHeader (get_data (identity_headers ts)) HEADER_BOT_ID) = Some ''bot_1''"
  "ts \<noteq> [] \<Longrightarrow> truthy (getHeader (get_data (identity_headers ts)) HEADER_SIGNATURE) = Some ''00''"
  "ts \<noteq> [] \<Longrightarrow> truthy (getHeader (get_data (identity_headers ts)) HEADER_TIMESTAMP) = Some ts"
  by (simp_all add: getHeader_def header_names get_data_def identity_headers_def truthy_def)

lemma Number_1700000000: "Number ''1700000000'' = Fin 1700000000"
  by (simp add: Number_def trim_def is_space_def decimal_literal_def unsigned_decimal_def
        exponent_part_def scale10_def is_digit_of_def digit_table_def digits_val_def digit_val_def)

lemma Number_hex: "Number ''0x6553F100'' = Fin 1700000000"
  by (simp add: Number_def trim_def is_space_def radix_literal_def is_digit_of_def digit_table_def
        digits_val_def digit_val_def)

lemma Number_abc: "Number ''abc'' = NaN"
  by (simp add: Number_def trim_def is_space_def decimal_literal_def unsigned_decimal_def
        is_digit_of_def digit_table_def)

lemma hex_not_decimal: "\<not> is_decimal_number ''0x6553F100''"
  by (simp add: is_decimal_number_def trim_def is_space_def unsigned_decimal_def exponent_part_def
        is_digit_of_def digit_table_def)

lemma getHeader_empty:
  "truthy (getHeader (req\<lparr>headers := (headers req)(name \<mapsto> Single [])\<rparr>) H)
   = truthy (getHeader (req\<lparr>headers := (headers req)(name := None)\<rparr>) H)"
  by (simp add: getHeader_def truthy_def)

lemma reqMethod_headers: "reqMethod (req\<lparr>headers := hs\<rparr>) = reqMethod req"
  by (simp add: reqMethod_def)

lemma reqPath_headers: "reqPath (req\<lparr>headers := hs\<rparr>) = reqPath req"
  by (simp add: reqPath_def split: option.splits)

lemma lookup_headers_irrelevant:
  "lookup_and_verify h options env (req\<lparr>headers := hs\<rparr>) b s t
   = lookup_and_verify h options env req b s t"
  unfolding lookup_and_verify_def reqMethod_headers reqPath_headers by (rule refl)

text \<open>
  Every outcome of the \<open>try\<close> block carries a result, so \<open>req.BotID\<close> is left unassigned
  exactly where the middleware enforces and the three headers are not all present.
\<close>

lemma lookup_attaches:
  "lookup_and_verify h options env req botId signature ts = Inr out \<Longrightarrow> BotID out \<noteq> None"
  by (auto simp add: lookup_and_verify_def
        split: fetch_result.splits sum.splits bool.splits if_splits keys_body.splits option.splits)

lemma result_attached_iff:
  "BotID (verifyBotID h options env req) = None \<longleftrightarrow>
     enforcing options
     \<and> (truthy (getHeader req HEADER_BOT_ID) = None
        \<or> truthy (getHeader req HEADER_SIGNATURE) = None
        \<or> truthy (getHeader req HEADER_TIMESTAMP) = None)"
proof (cases "truthy (getHeader req HEADER_BOT_ID)")
  case None
  then show ?thesis
    by (simp add: verifyBotID_def split: option.splits)
next
  case b: (Some botId)
  show ?thesis
  proof (cases "truthy (getHeader req HEADER_SIGNATURE)")
    case None
    with b show ?thesis by (simp add: verifyBotID_def split: option.splits)
  next
    case s: (Some signature)
    show ?thesis
    proof (cases "truthy (getHeader req HEADER_TIMESTAMP)")
      case None
      with b s show ?thesis by (simp add: verifyBotID_def)
    next
      case (Some timestampRaw)
      with b s show ?thesis
        using lookup_attaches [of h options env req botId signature "Number timestampRaw"]
        by (auto simp add: verifyBotID_def unavailable_def split: sum.splits)
    qed
  qed
qed

subsection \<open>Facts about the store\<close>

text \<open>
  A file that cannot be read, or whose text is not JSON, reads as no agents and no
  session.
\<close>

lemma damaged_store_lists_nothing:
  assumes "credentials_file f = Some (m, c)" "c = Unreadable \<or> c = Garbled"
  shows "fst (listAgents f) = Inr []"
  using assms
  by (auto simp add: listAgents_def readStore_def ensureDir_def empty_store_def
        js_get_def Object_keys_def split: option.splits)

lemma damaged_session_reads_absent:
  assumes "auth_file f = Some (m, c)" "c = Unreadable \<or> c = Garbled"
  shows "fst (getAuthSession f) = None"
  using assms
  by (auto simp add: getAuthSession_def ensureDir_def split: option.splits)

lemma getAuthSession_saved:
  "fst (getAuthSession (saveAuthSession session f)) = Some (JSON_of_session session)"
  by (simp add: getAuthSession_def saveAuthSession_def ensureDir_def writeFileSync_def
        split: option.splits prod.splits)

subsection \<open>Facts about the poll loop\<close>

lemma poll_loop_skip:
  "list_all (keeps_polling code startTime) pre \<Longrightarrow>
   poll_loop base code startTime (pre @ rest) f = poll_loop base code startTime rest f"
proof (induction pre)
  case Nil
  then show ?case by simp
next
  case (Cons ev pre)
  then show ?case
    by (auto simp add: keeps_polling_def split: sum.splits if_splits)
qed

lemma poll_loop_complete:
  assumes "at_check ev - startTime < expiresIn code * 1000"
      and "pollDeviceAuth (poll_reply ev) = Inr poll"
      and "status poll = ''complete''"
      and "poll_accessToken poll = Some token" and "token \<noteq> []"
  shows "poll_loop base code startTime (ev # rest) f =
           Some (Inr token,
                 saveAuthSession
                   \<lparr>accessToken = token, session_apiUrl = base, authenticatedAt = saved_at ev\<rparr> f)"
  using assms by (simp add: truthy_def)


subsection \<open>Facts about the client and the request it sends\<close>

lemma hex_decode_append: "Buffer_from_hex (toString_hex bs @ t) = bs @ Buffer_from_hex t"
proof (induction bs)
  case Nil
  then show ?case by (simp add: toString_hex_def)
next
  case (Cons b bs)
  have "toString_hex (b # bs) @ t
        = hex_chars ! (unat b div 16) # hex_chars ! (unat b mod 16) # (toString_hex bs @ t)"
    by (simp add: toString_hex_def)
  with Cons show ?case
    by (simp add: hex_digit_ok byte_nibbles byte_of_nibbles del: of_nat_add of_nat_mult)
qed

lemma normalize_value_id:
  assumes "list_all (\<lambda>c. \<not> http_whitespace c) s"
  shows "normalize_value s = s"
proof (cases "s = []")
  case True
  then show ?thesis by (simp add: normalize_value_def)
next
  case False
  then have "\<not> http_whitespace (hd s)" "\<not> http_whitespace (last s)"
    using assms by (simp_all add: list_all_iff)
  with False have "dropWhile http_whitespace s = s" "dropWhile http_whitespace (rev s) = rev s"
    by (simp_all add: dropWhile_eq_self_iff hd_rev)
  then show ?thesis by (simp add: normalize_value_def)
qed

lemma hex_chars_plain:
  assumes "n < 16"
  shows "\<not> http_whitespace (hex_chars ! n)" "\<not> forbidden_byte (hex_chars ! n)"
proof -
  have "list_all (\<lambda>n. \<not> http_whitespace (hex_chars ! n) \<and> \<not> forbidden_byte (hex_chars ! n)) [0..<16]"
    by (simp add: hex_chars_def http_whitespace_def forbidden_byte_def upt_rec)
  with assms show "\<not> http_whitespace (hex_chars ! n)" "\<not> forbidden_byte (hex_chars ! n)"
    by (simp_all add: list_all_iff)
qed

lemma toString_hex_plain:
  "list_all (\<lambda>c. \<not> http_whitespace c) (toString_hex bs)" "valid_value (toString_hex bs)"
  by (induction bs) (simp_all add: toString_hex_def valid_value_def hex_chars_plain byte_nibbles)

lemma digit_plain:
  assumes "is_digit_of 10 c"
  shows "\<not> http_whitespace c" "\<not> forbidden_byte c"
  using assms by (auto simp add: is_decimal_digit digit_chars_def http_whitespace_def forbidden_byte_def)

lemma minus_plain: "\<not> http_whitespace (CHR ''-'')" "\<not> forbidden_byte (CHR ''-'')"
  by (simp_all add: http_whitespace_def forbidden_byte_def)

lemma show_nat_plain:
  "list_all (\<lambda>c. \<not> http_whitespace c) (show_nat n)" "valid_value (show_nat n)"
  using show_nat_digits [of n] by (simp_all add: valid_value_def list_all_iff digit_plain)

lemma show_int_plain:
  "list_all (\<lambda>c. \<not> http_whitespace c) (show_int i)" "valid_value (show_int i)" "show_int i \<noteq> []"
  using show_nat_plain show_nat_digits
  by (simp_all add: show_int_def valid_value_def minus_plain)

lemma Headers_set_plain:
  assumes "list_all (\<lambda>c. \<not> http_whitespace c) v" "valid_value v"
  shows "Headers_set hs name v = Inr (hs(toLowerCase name \<mapsto> v))"
  using assms by (simp add: Headers_set_def normalize_value_id)

lemma signMessage_hex:
  "signMessage h m priv = Inr signature \<Longrightarrow> \<exists>sg. signature = toString_hex sg"
  by (auto simp add: signMessage_def split: sum.splits)

lemma verifySignature_returns: "\<exists>ok. verifySignature h m s k = Inr ok"
  by (cases "verifySignature_try h m s k") (auto simp add: verifySignature_def)

lemma fetch_message_spec:
  assumes "\<bar>ms\<bar> \<le> 8640000000000000"
  shows "fetch_message h c ms init u
         = spec_signed_message (ms div 1000) (c_botId c)
             (case init_method init of None \<Rightarrow> ''GET'' | Some m \<Rightarrow> m) (pathname u)"
  by (simp add: fetch_message_def spec_signed_message_def timestamp_roundtrip(2) [OF assms])

lemma fetch_sends:
  assumes "BotIDClient_fetch h c ms target init = Inr out"
      and "URL_new h target = Inr u"
      and "\<bar>ms\<bar> \<le> 8640000000000000"
  shows "\<exists>signature.
           signMessage h (fetch_message h c ms init u) (c_privateKey c) = Inr signature
           \<and> out_headers out (toLowerCase HEADER_BOT_ID) = Some (normalize_value (c_botId c))
           \<and> out_headers out (toLowerCase HEADER_SIGNATURE) = Some signature
           \<and> out_headers out (toLowerCase HEADER_TIMESTAMP) = Some (show_int (ms div 1000))"
proof -
  let ?ts = "js_toString (fmt_number h) (now_seconds ms)"
  have ts: "?ts = show_int (ms div 1000)"
    by (rule timestamp_roundtrip(2) [OF assms(3)])
  obtain signature hs1 hs2 hs3 where
    sg: "signMessage h (fetch_message h c ms init u) (c_privateKey c) = Inr signature"
    and h1: "Headers_set (init_headers init) HEADER_BOT_ID (c_botId c) = Inr hs1"
    and h2: "Headers_set hs1 HEADER_SIGNATURE signature = Inr hs2"
    and h3: "Headers_set hs2 HEADER_TIMESTAMP ?ts = Inr hs3"
    and out: "out_headers out = hs3"
    using assms(1,2) by (auto simp add: BotIDClient_fetch_def split: sum.splits)
  obtain sg' where hex: "signature = toString_hex sg'"
    using signMessage_hex [OF sg] by blast
  have e1: "hs1 = (init_headers init)(toLowerCase HEADER_BOT_ID \<mapsto> normalize_value (c_botId c))"
    using h1 by (simp add: Headers_set_def split: if_splits)
  have e2: "hs2 = hs1(toLowerCase HEADER_SIGNATURE \<mapsto> signature)"
    using h2 by (simp add: hex Headers_set_plain toString_hex_plain)
  have e3: "hs3 = hs2(toLowerCase HEADER_TIMESTAMP \<mapsto> show_int (ms div 1000))"
    using h3 by (simp add: ts Headers_set_plain show_int_plain)
  show ?thesis
    using sg by (simp add: out e1 e2 e3 header_names)
qed

lemma sent_request_checked:
  assumes "BotIDClient_fetch h c ms target init = Inr out"
      and "URL_new h target = Inr u"
      and "CHR ''?'' \<notin> set (pathname u)"
      and "search u = [] \<or> hd (search u) = CHR ''?''"
      and "\<bar>ms\<bar> \<le> 8640000000000000"
      and "originalUrl req = Some (pathname u @ search u)"
      and "req_method req = Some wire"
      and "wire = (case init_method init of None \<Rightarrow> ''GET'' | Some m \<Rightarrow> m)
           \<or> wire = toUpperCase (case init_method init of None \<Rightarrow> ''GET'' | Some m \<Rightarrow> m)"
      and "getHeader req HEADER_BOT_ID = out_headers out (toLowerCase HEADER_BOT_ID)"
      and "getHeader req HEADER_SIGNATURE = out_headers out (toLowerCase HEADER_SIGNATURE)"
      and "getHeader req HEADER_TIMESTAMP = out_headers out (toLowerCase HEADER_TIMESTAMP)"
      and "normalize_value (c_botId c) \<noteq> []"
      and "out_headers out (toLowerCase HEADER_SIGNATURE) \<noteq> Some []"
      and "isTimestampValid (clock env) (now_seconds ms)"
      and "registry env (keys_url options (normalize_value (c_botId c))) = Response st (JsonObject r (Some k))"
      and "response_ok st"
      and "meth = (case init_method init of None \<Rightarrow> ''GET'' | Some m \<Rightarrow> m)"
  shows "\<exists>signature ok.
           out_headers out (toLowerCase HEADER_SIGNATURE) = Some signature
           \<and> signMessage h (spec_signed_message (ms div 1000) (c_botId c) meth (pathname u))
                 (c_privateKey c) = Inr signature
           \<and> verifySignature h
                 (spec_signed_message (ms div 1000) (normalize_value (c_botId c)) meth (pathname u))
                 signature k = Inr ok
           \<and> BotID (verifyBotID h options env req)
               = Some (if ok
                       then \<lparr>verified = True,
                             bot = Some \<lparr>bot_id = normalize_value (c_botId c),
                                         bot_name = normalize_value (c_botId c), deployer_id = []\<rparr>,
                             timestamp = now_seconds ms, error = None, revoked = None\<rparr>
                       else plain_result (now_seconds ms))"
proof -
  let ?b = "normalize_value (c_botId c)"
  let ?t = "show_int (ms div 1000)"
  obtain signature where
    sg: "signMessage h (fetch_message h c ms init u) (c_privateKey c) = Inr signature"
    and hb: "out_headers out (toLowerCase HEADER_BOT_ID) = Some ?b"
    and hs: "out_headers out (toLowerCase HEADER_SIGNATURE) = Some signature"
    and ht: "out_headers out (toLowerCase HEADER_TIMESTAMP) = Some ?t"
    using fetch_sends [OF assms(1,2,5)] by blast
  have signed: "signMessage h (spec_signed_message (ms div 1000) (c_botId c) meth (pathname u))
                  (c_privateKey c) = Inr signature"
    using sg by (simp add: fetch_message_spec [OF assms(5)] assms(17))
  have tb: "truthy (getHeader req HEADER_BOT_ID) = Some ?b"
    using assms(9,12) by (simp add: hb truthy_def)
  have tsg: "truthy (getHeader req HEADER_SIGNATURE) = Some signature"
    using assms(10,13) by (simp add: hs truthy_def)
  have tt: "truthy (getHeader req HEADER_TIMESTAMP) = Some ?t"
    using assms(11) by (simp add: ht truthy_def show_int_plain)
  have num: "Number ?t = now_seconds ms"
    by (simp add: Number_show_int now_seconds_def)
  have p: "reqPath req = pathname u"
    using assms(3,4,6) by (rule reqPath_received [rotated])
  have m: "reqMethod req = toUpperCase meth"
    using assms(7,8) by (auto simp add: reqMethod_def toUpperCase_idem assms(17))
  have msg: "request_message (fmt_number h) (now_seconds ms) ?b (reqMethod req) (reqPath req)
             = spec_signed_message (ms div 1000) ?b meth (pathname u)"
    by (simp add: request_message_def spec_signed_message_def p m timestamp_roundtrip(2) [OF assms(5)])
  obtain ok where ok:
    "verifySignature h (spec_signed_message (ms div 1000) ?b meth (pathname u)) signature k = Inr ok"
    using verifySignature_returns by blast
  have st: "st \<noteq> 403"
    using assms(16) by (auto simp add: response_ok_def)
  have "lookup_and_verify h options env req ?b signature (now_seconds ms)
        = Inr \<lparr>act = (if \<not> ok \<and> enforcing options
                      then reject options 403
                             \<lparr>body_error = ''Bot identity verification failed'', body_revoked = None\<rparr>
                      else Next),
               BotID = Some (if ok
                             then \<lparr>verified = True,
                                   bot = Some \<lparr>bot_id = ?b, bot_name = ?b, deployer_id = []\<rparr>,
                                   timestamp = now_seconds ms, error = None, revoked = None\<rparr>
                             else plain_result (now_seconds ms)),
               fetched = [keys_url options ?b]\<rparr>"
    using assms(15,16) st by (simp add: lookup_and_verify_def msg ok)
  then have "BotID (verifyBotID h options env req)
             = Some (if ok
                     then \<lparr>verified = True,
                           bot = Some \<lparr>bot_id = ?b, bot_name = ?b, deployer_id = []\<rparr>,
                           timestamp = now_seconds ms, error = None, revoked = None\<rparr>
                     else plain_result (now_seconds ms))"
    using assms(14) by (simp add: verifyBotID_def tb tsg tt num)
  with hs signed ok show ?thesis by blast
qed

lemma show_1700000000: "show_int 1700000000 = ''1700000000''"
  by (simp add: show_int_def show_nat.simps digit_chars_def)

lemma upper_post: "toUpperCase ''post'' = ''POST''"
  by (simp add: toUpperCase_def upper_char_def ascii_lower_def ascii_upper_def)

lemma demo_message: "spec_signed_message 1700000000 ''bot_1'' ''post'' ''/data'' = ''1700000000.bot_1.POST./data''"
  by (simp add: spec_signed_message_def show_1700000000 upper_post)

lemma nl_message:
  "spec_signed_message 1700000000 (''bot_1'' @ [CHR 0x0A]) ''post'' ''/data''
   = ''1700000000.bot_1'' @ [CHR 0x0A] @ ''.POST./data''"
  by (simp add: spec_signed_message_def show_1700000000 upper_post)

lemma demo_private_key:
  "createPrivateKey demo_host (Buffer_from_hex (snd (generateKeypair demo_host 7))) = Inr (demo_key 7)"
  by (simp add: generateKeypair_def hex_roundtrip demo_host_def demo_key_def demo_pkcs8_prefix_def)

lemma demo_public_key:
  "createPublicKey demo_host (Buffer_from_hex (fst (generateKeypair demo_host 7))) = Inr (demo_key 7)"
  by (simp add: generateKeypair_def hex_roundtrip demo_host_def demo_key_def demo_spki_prefix_def)

lemma demo_sign:
  "signMessage demo_host m (snd (generateKeypair demo_host 7)) = Inr (toString_hex (demo_key 7 @ Buffer_from m))"
  by (simp add: signMessage_def demo_private_key) (simp add: demo_host_def)

lemma demo_verify:
  "verifySignature demo_host m (toString_hex (demo_key 7 @ Buffer_from m') @ tail) (fst (generateKeypair demo_host 7))
   = Inr (Buffer_from m' @ Buffer_from_hex tail = Buffer_from m)"
  by (simp add: verifySignature_def verifySignature_try_def demo_public_key hex_decode_append)
     (simp add: demo_host_def)

lemma normalize_plain:
  "normalize_value (toString_hex sg) = toString_hex sg"
  "normalize_value (show_int i) = show_int i"
  by (simp_all add: normalize_value_id toString_hex_plain show_int_plain)

lemma fetch_succeeds:
  assumes "URL_new h target = Inr u"
      and "signMessage h (fetch_message h c ms init u) (c_privateKey c) = Inr signature"
      and "valid_value (normalize_value (c_botId c))"
      and "\<bar>ms\<bar> \<le> 8640000000000000"
  shows "\<exists>out. BotIDClient_fetch h c ms target init = Inr out"
proof -
  obtain sg where "signature = toString_hex sg" using signMessage_hex [OF assms(2)] by blast
  then show ?thesis
    using assms
    by (simp add: BotIDClient_fetch_def Headers_set_def normalize_plain toString_hex_plain show_int_plain
          timestamp_roundtrip(2) [OF assms(4)])
qed

lemma client_botIds:
  "normalize_value (c_botId demo_client) = ''bot_1''" "normalize_value (c_botId nl_client) = ''bot_1''"
  "c_botId demo_client = ''bot_1''" "c_privateKey nl_client = c_privateKey demo_client"
  "c_privateKey demo_client = snd (generateKeypair demo_host 7)"
  "normalize_value ''bot_1'' = ''bot_1''"
  by (simp_all add: normalize_value_def http_whitespace_def demo_client_def nl_client_def)

lemma bot_1_valid: "valid_value ''bot_1''"
  by (simp add: valid_value_def forbidden_byte_def)

lemma demo_parsed: "URL_new demo_host demo_target = Inr demo_url"
  by (simp add: demo_host_def)

lemma demo_sent: "BotIDClient_fetch demo_host demo_client 1700000000123 demo_target demo_init = Inr demo_out"
proof -
  have "\<exists>out. BotIDClient_fetch demo_host demo_client 1700000000123 demo_target demo_init = Inr out"
    by (rule fetch_succeeds [OF demo_parsed]) (simp_all add: client_botIds demo_sign bot_1_valid)
  then show ?thesis by (auto simp add: demo_out_def)
qed

lemma nl_sent: "BotIDClient_fetch demo_host nl_client 1700000000123 demo_target demo_init = Inr nl_out"
proof -
  have "\<exists>out. BotIDClient_fetch demo_host nl_client 1700000000123 demo_target demo_init = Inr out"
    by (rule fetch_succeeds [OF demo_parsed]) (simp_all add: client_botIds demo_sign bot_1_valid)
  then show ?thesis by (auto simp add: nl_out_def)
qed

lemma delivered_header: "getHeader (delivered out u wire) name = out_headers out (toLowerCase name)"
  by (simp add: getHeader_def delivered_def split: option.splits)

lemma serving_fresh: "isTimestampValid (clock serving_env) (now_seconds 1700000000123)"
  by (simp add: now_seconds_def isTimestampValid_Fin serving_env_def)

lemma serving_registry:
  "registry serving_env target = Response 200 (JsonObject None (Some (fst (generateKeypair demo_host 7))))"
  by (simp add: serving_env_def)

lemma demo_signature_nonempty: "toString_hex (demo_key n @ x) \<noteq> []"
proof -
  have "demo_key n @ x \<noteq> []" by (simp add: demo_key_def)
  then show ?thesis by (cases "demo_key n @ x") (simp_all add: toString_hex_def)
qed

section \<open>The claims\<close>

text \<open>
  Claim C1.  The claim: on every path the middleware attaches a verification result to
  the request before control passes on, also where \<open>enforce\<close> is on and the request is
  rejected for having no identity headers or only some of them.  The code at these two
  inputs: a request without identity headers, under the default options, is answered
  403 and \<open>req.BotID\<close> is never assigned; a request with only \<open>X-BotID\<close>, under an
  \<open>onUnverified\<close> callback, is handed to the callback and \<open>req.BotID\<close> is never
  assigned.  The branches for a stale timestamp, a revoked identity, a failed
  signature and an unavailable registry assign it before they reject.
\<close>

theorem rejected_without_result:
  "BotID (verifyBotID h default_options env (get_data Map.empty)) = None
   \<and> act (verifyBotID h default_options env (get_data Map.empty))
       = Respond 403 \<lparr>body_error = ''BotID verification required'', body_revoked = None\<rparr>
   \<and> BotID (verifyBotID h (default_options\<lparr>onUnverified := Some f\<rparr>) env
              (get_data [''x-botid'' \<mapsto> Single ''bot_1''])) = None
   \<and> act (verifyBotID h (default_options\<lparr>onUnverified := Some f\<rparr>) env
            (get_data [''x-botid'' \<mapsto> Single ''bot_1''])) = Unverified f"
  by (simp add: verifyBotID_def getHeader_def header_names truthy_def get_data_def
        enforcing_def reject_def default_options_def)

text \<open>
  Claim C2.  A request carries all three identity headers and a fresh timestamp, and
  the registry answers the key lookup with 403 and a body whose \<open>revoked\<close> is true.
  With \<open>enforce\<close> on and no callback the middleware responds 403 with \<open>revoked: true\<close> in
  the body; with \<open>enforce\<close> off it calls \<open>next()\<close>, having attached a result with
  \<open>verified = false\<close> and \<open>revoked = true\<close>.
\<close>

theorem revoked_outcome:
  assumes "truthy (getHeader req HEADER_BOT_ID) = Some botId"
      and "truthy (getHeader req HEADER_SIGNATURE) = Some signature"
      and "truthy (getHeader req HEADER_TIMESTAMP) = Some timestampRaw"
      and "isTimestampValid (clock env) (Number timestampRaw)"
      and "registry env (keys_url options botId) = Response 403 (JsonObject (Some True) k)"
  shows "(enforcing options \<and> onUnverified options = None \<longrightarrow>
            act (verifyBotID h options env req) =
              Respond 403 \<lparr>body_error = ''Bot identity has been revoked'', body_revoked = Some True\<rparr>)
         \<and> (\<not> enforcing options \<longrightarrow>
              act (verifyBotID h options env req) = Next
              \<and> (\<exists>r. BotID (verifyBotID h options env req) = Some r
                       \<and> verified r = False \<and> revoked r = Some True))"
  using assms
  by (simp add: verifyBotID_def lookup_and_verify_def revoked_flag_def reject_def)

theorem revoked_outcome_witness:
  "act (verifyBotID demo_host default_options revoking_env (get_data (identity_headers ''1700000000'')))
     = Respond 403 \<lparr>body_error = ''Bot identity has been revoked'', body_revoked = Some True\<rparr>
   \<and> act (verifyBotID demo_host passive_options revoking_env (get_data (identity_headers ''1700000000'')))
     = Next
   \<and> (\<exists>r. BotID (verifyBotID demo_host passive_options revoking_env
                    (get_data (identity_headers ''1700000000''))) = Some r
          \<and> verified r = False \<and> revoked r = Some True)"
proof -
  let ?req = "get_data (identity_headers ''1700000000'')"
  have fresh: "isTimestampValid (clock revoking_env) (Number ''1700000000'')"
    by (simp add: Number_1700000000 isTimestampValid_Fin revoking_env_def)
  have reg: "registry revoking_env (keys_url options ''bot_1'') = Response 403 (JsonObject (Some True) None)"
    for options
    by (simp add: revoking_env_def)
  have on: "enforcing default_options \<and> onUnverified default_options = None"
    by (simp add: enforcing_def default_options_def)
  have off: "\<not> enforcing passive_options"
    by (simp add: enforcing_def passive_options_def)
  from revoked_outcome [of ?req "''bot_1''" "''00''" "''1700000000''" revoking_env default_options None demo_host]
       revoked_outcome [of ?req "''bot_1''" "''00''" "''1700000000''" revoking_env passive_options None demo_host]
       fresh reg on off
  show ?thesis by (simp add: identity_headers_present)
qed

text \<open>
  Claim C3, as amended.  The signer and the verifier build the signed message by the
  same rule.  \<open>BotIDClient.fetch\<close> sends a request for a client whose \<open>botId\<close> has no
  leading or trailing HTTP white space and is not empty.  The request reaches the
  middleware as sent: the path and query of the parsed URL as its request target (a
  path holds no question mark, a query is empty or starts with one), the method token
  as given or upper-cased, the three identity headers as they were set.  The server's
  clock is within the window of the client's, and the registry serves a key.  Then
  the signature header is the client's signature of \<open>{timestamp}.{botId}.{METHOD}.{path}\<close>,
  and the middleware checks that signature against this same string: its result is
  verified exactly when the signature verifies for it under the served key.
\<close>

theorem signer_verifier_agree:
  assumes "BotIDClient_fetch h c ms target init = Inr out"
      and "URL_new h target = Inr u"
      and "CHR ''?'' \<notin> set (pathname u)"
      and "search u = [] \<or> hd (search u) = CHR ''?''"
      and "\<bar>ms\<bar> \<le> 8640000000000000"
      and "originalUrl req = Some (pathname u @ search u)"
      and "req_method req = Some wire"
      and "wire = (case init_method init of None \<Rightarrow> ''GET'' | Some m \<Rightarrow> m)
           \<or> wire = toUpperCase (case init_method init of None \<Rightarrow> ''GET'' | Some m \<Rightarrow> m)"
      and "getHeader req HEADER_BOT_ID = out_headers out (toLowerCase HEADER_BOT_ID)"
      and "getHeader req HEADER_SIGNATURE = out_headers out (toLowerCase HEADER_SIGNATURE)"
      and "getHeader req HEADER_TIMESTAMP = out_headers out (toLowerCase HEADER_TIMESTAMP)"
      and "normalize_value (c_botId c) = c_botId c"
      and "c_botId c \<noteq> []"
      and "out_headers out (toLowerCase HEADER_SIGNATURE) \<noteq> Some []"
      and "isTimestampValid (clock env) (now_seconds ms)"
      and "registry env (keys_url options (c_botId c)) = Response st (JsonObject r (Some k))"
      and "response_ok st"
      and "message = spec_signed_message (ms div 1000) (c_botId c)
                       (case init_method init of None \<Rightarrow> ''GET'' | Some m \<Rightarrow> m) (pathname u)"
  shows "\<exists>signature ok.
           out_headers out (toLowerCase HEADER_SIGNATURE) = Some signature
           \<and> signMessage h message (c_privateKey c) = Inr signature
           \<and> verifySignature h message signature k = Inr ok
           \<and> BotID (verifyBotID h options env req)
               = Some (if ok
                       then \<lparr>verified = True,
                             bot = Some \<lparr>bot_id = c_botId c, bot_name = c_botId c, deployer_id = []\<rparr>,
                             timestamp = now_seconds ms, error = None, revoked = None\<rparr>
                       else plain_result (now_seconds ms))"
proof -
  have b: "normalize_value (c_botId c) \<noteq> []"
    using assms(12,13) by simp
  have reg: "registry env (keys_url options (normalize_value (c_botId c))) = Response st (JsonObject r (Some k))"
    using assms(12,16) by simp
  from sent_request_checked [OF assms(1-11) b assms(14,15) reg assms(17) refl]
  show ?thesis unfolding assms(12,18) .
qed

theorem signer_verifier_agree_witness:
  "spec_signed_message 1700000000 ''bot_1'' ''post'' ''/data'' = ''1700000000.bot_1.POST./data''
   \<and> (\<exists>signature.
         out_headers demo_out (toLowerCase HEADER_SIGNATURE) = Some signature
         \<and> signMessage demo_host ''1700000000.bot_1.POST./data'' (c_privateKey demo_client) = Inr signature
         \<and> verifySignature demo_host ''1700000000.bot_1.POST./data'' signature
               (fst (generateKeypair demo_host 7)) = Inr True
         \<and> BotID (verifyBotID demo_host default_options serving_env (delivered demo_out demo_url ''POST''))
             = Some \<lparr>verified = True,
                     bot = Some \<lparr>bot_id = ''bot_1'', bot_name = ''bot_1'', deployer_id = []\<rparr>,
                     timestamp = Fin 1700000000, error = None, revoked = None\<rparr>)"
proof -
  let ?req = "delivered demo_out demo_url ''POST''"
  let ?m = "''1700000000.bot_1.POST./data''"
  have path: "CHR ''?'' \<notin> set (pathname demo_url)"
    by (simp add: demo_url_def)
  have query: "search demo_url = [] \<or> hd (search demo_url) = CHR ''?''"
    by (simp add: demo_url_def)
  have range: "\<bar>1700000000123 :: int\<bar> \<le> 8640000000000000"
    by simp
  have target: "originalUrl ?req = Some (pathname demo_url @ search demo_url)"
    by (simp add: delivered_def)
  have meth: "req_method ?req = Some ''POST''"
    by (simp add: delivered_def)
  have wire: "''POST'' = (case init_method demo_init of None \<Rightarrow> ''GET'' | Some m \<Rightarrow> m)
              \<or> ''POST'' = toUpperCase (case init_method demo_init of None \<Rightarrow> ''GET'' | Some m \<Rightarrow> m)"
    by (simp add: demo_init_def upper_post)
  have clean: "normalize_value (c_botId demo_client) = c_botId demo_client"
    and ne: "c_botId demo_client \<noteq> []"
    by (simp_all add: client_botIds)
  obtain s0 where s0: "out_headers demo_out (toLowerCase HEADER_SIGNATURE) = Some s0"
      and s0': "signMessage demo_host (fetch_message demo_host demo_client 1700000000123 demo_init demo_url)
                  (c_privateKey demo_client) = Inr s0"
    using fetch_sends [OF demo_sent demo_parsed range] by blast
  have "s0 \<noteq> []"
    using s0' demo_signature_nonempty by (auto simp add: client_botIds demo_sign)
  with s0 have sig: "out_headers demo_out (toLowerCase HEADER_SIGNATURE) \<noteq> Some []"
    by simp
  have msg: "?m = spec_signed_message (1700000000123 div 1000) (c_botId demo_client)
                    (case init_method demo_init of None \<Rightarrow> ''GET'' | Some m \<Rightarrow> m) (pathname demo_url)"
    by (simp add: client_botIds demo_init_def demo_url_def demo_message)
  obtain signature ok where
    a: "out_headers demo_out (toLowerCase HEADER_SIGNATURE) = Some signature"
    and b: "signMessage demo_host ?m (c_privateKey demo_client) = Inr signature"
    and c: "verifySignature demo_host ?m signature (fst (generateKeypair demo_host 7)) = Inr ok"
    and d: "BotID (verifyBotID demo_host default_options serving_env ?req)
            = Some (if ok
                    then \<lparr>verified = True,
                          bot = Some \<lparr>bot_id = c_botId demo_client, bot_name = c_botId demo_client,
                                      deployer_id = []\<rparr>,
                          timestamp = now_seconds 1700000000123, error = None, revoked = None\<rparr>
                    else plain_result (now_seconds 1700000000123))"
    using signer_verifier_agree [OF demo_sent demo_parsed path query range target meth wire
            delivered_header delivered_header delivered_header clean ne sig serving_fresh
            serving_registry _ msg, of default_options]
    by (auto simp add: response_ok_def)
  have "signature = toString_hex (demo_key 7 @ Buffer_from ?m)"
    using b by (simp add: client_botIds demo_sign)
  then have "ok"
    using c demo_verify [of ?m ?m "[]"] by simp
  with a b c d show ?thesis
    by (simp add: demo_message client_botIds now_seconds_def)
qed

text \<open>
  Claim C3 as it was stated fails for a \<open>botId\<close> that ends in a line feed.  The client
  signs the string with the line feed in it; \<open>Headers.set\<close> strips the line feed from the
  \<open>X-BotID\<close> header, so the middleware rebuilds the string without it.  The two strings
  differ, and the request is not verified although the registry serves the client's own
  public key.
\<close>

theorem newline_botId_fails:
  "BotIDClient_fetch demo_host nl_client 1700000000123 demo_target demo_init = Inr nl_out
   \<and> spec_signed_message 1700000000 (c_botId nl_client) ''post'' ''/data''
       = ''1700000000.bot_1'' @ [CHR 0x0A] @ ''.POST./data''
   \<and> signMessage demo_host (''1700000000.bot_1'' @ [CHR 0x0A] @ ''.POST./data'') (c_privateKey nl_client)
       = Inr (toString_hex (demo_key 7 @ Buffer_from (''1700000000.bot_1'' @ [CHR 0x0A] @ ''.POST./data'')))
   \<and> getHeader (delivered nl_out demo_url ''POST'') HEADER_SIGNATURE
       = Some (toString_hex (demo_key 7 @ Buffer_from (''1700000000.bot_1'' @ [CHR 0x0A] @ ''.POST./data'')))
   \<and> getHeader (delivered nl_out demo_url ''POST'') HEADER_BOT_ID = Some ''bot_1''
   \<and> getHeader (delivered nl_out demo_url ''POST'') HEADER_TIMESTAMP = Some ''1700000000''
   \<and> request_message (fmt_number demo_host) (Number ''1700000000'') ''bot_1''
         (reqMethod (delivered nl_out demo_url ''POST'')) (reqPath (delivered nl_out demo_url ''POST''))
       = ''1700000000.bot_1.POST./data''
   \<and> ''1700000000.bot_1'' @ [CHR 0x0A] @ ''.POST./data'' \<noteq> ''1700000000.bot_1.POST./data''
   \<and> BotID (verifyBotID demo_host default_options serving_env (delivered nl_out demo_url ''POST''))
       = Some (plain_result (Fin 1700000000))"
proof -
  let ?req = "delivered nl_out demo_url ''POST''"
  let ?m1 = "''1700000000.bot_1'' @ [CHR 0x0A] @ ''.POST./data''"
  let ?m2 = "''1700000000.bot_1.POST./data''"
  have range: "\<bar>1700000000123 :: int\<bar> \<le> 8640000000000000"
    by simp
  have path: "CHR ''?'' \<notin> set (pathname demo_url)"
    by (simp add: demo_url_def)
  have query: "search demo_url = [] \<or> hd (search demo_url) = CHR ''?''"
    by (simp add: demo_url_def)
  have target: "originalUrl ?req = Some (pathname demo_url @ search demo_url)"
    by (simp add: delivered_def)
  have meth: "req_method ?req = Some ''POST''"
    by (simp add: delivered_def)
  have wire: "''POST'' = (case init_method demo_init of None \<Rightarrow> ''GET'' | Some m \<Rightarrow> m)
              \<or> ''POST'' = toUpperCase (case init_method demo_init of None \<Rightarrow> ''GET'' | Some m \<Rightarrow> m)"
    by (simp add: demo_init_def upper_post)
  have m1: "spec_signed_message 1700000000 (c_botId nl_client) ''post'' ''/data'' = ?m1"
    by (simp add: nl_client_def spec_signed_message_def show_1700000000 upper_post)
  have fm: "fetch_message demo_host nl_client 1700000000123 demo_init demo_url = ?m1"
    using m1 by (simp add: fetch_message_spec [OF range] demo_init_def demo_url_def)
  have sign: "signMessage demo_host ?m1 (c_privateKey nl_client)
              = Inr (toString_hex (demo_key 7 @ Buffer_from ?m1))"
    by (simp only: client_botIds demo_sign)
  obtain s0 where
    hs: "out_headers nl_out (toLowerCase HEADER_SIGNATURE) = Some s0"
    and s0: "signMessage demo_host (fetch_message demo_host nl_client 1700000000123 demo_init demo_url)
               (c_privateKey nl_client) = Inr s0"
    and hb: "out_headers nl_out (toLowerCase HEADER_BOT_ID) = Some (normalize_value (c_botId nl_client))"
    and ht: "out_headers nl_out (toLowerCase HEADER_TIMESTAMP) = Some (show_int (1700000000123 div 1000))"
    using fetch_sends [OF nl_sent demo_parsed range] by blast
  have s0_eq: "s0 = toString_hex (demo_key 7 @ Buffer_from ?m1)"
    using s0 sign by (simp only: fm) simp
  have gs: "getHeader ?req HEADER_SIGNATURE = Some (toString_hex (demo_key 7 @ Buffer_from ?m1))"
    by (simp only: delivered_header hs s0_eq)
  have gb: "getHeader ?req HEADER_BOT_ID = Some ''bot_1''"
    by (simp only: delivered_header hb client_botIds)
  have gt: "getHeader ?req HEADER_TIMESTAMP = Some ''1700000000''"
    by (simp add: delivered_header ht show_1700000000)
  have p: "reqPath ?req = ''/data''"
    using reqPath_received [OF target path query] by (simp add: demo_url_def)
  have m: "reqMethod ?req = ''POST''"
    by (simp add: reqMethod_def delivered_def toUpperCase_def upper_char_def ascii_lower_def ascii_upper_def)
  have rebuilt: "request_message (fmt_number demo_host) (Number ''1700000000'') ''bot_1''
                   (reqMethod ?req) (reqPath ?req) = ?m2"
    using js_toString_int [of 1700000000 "fmt_number demo_host"]
    by (simp add: request_message_def Number_1700000000 p m show_1700000000)
  have differ: "?m1 \<noteq> ?m2"
    by simp
  have sig: "out_headers nl_out (toLowerCase HEADER_SIGNATURE) \<noteq> Some []"
    using hs s0_eq demo_signature_nonempty by auto
  have b: "normalize_value (c_botId nl_client) \<noteq> []"
    by (simp add: client_botIds)
  have reg: "registry serving_env (keys_url default_options (normalize_value (c_botId nl_client)))
             = Response 200 (JsonObject None (Some (fst (generateKeypair demo_host 7))))"
    by (rule serving_registry)
  have ok200: "response_ok 200"
    by (simp add: response_ok_def)
  obtain signature ok where
    a: "out_headers nl_out (toLowerCase HEADER_SIGNATURE) = Some signature"
    and c: "verifySignature demo_host
              (spec_signed_message (1700000000123 div 1000) (normalize_value (c_botId nl_client))
                 (case init_method demo_init of None \<Rightarrow> ''GET'' | Some m \<Rightarrow> m) (pathname demo_url))
              signature (fst (generateKeypair demo_host 7)) = Inr ok"
    and d: "BotID (verifyBotID demo_host default_options serving_env ?req)
            = Some (if ok
                    then \<lparr>verified = True,
                          bot = Some \<lparr>bot_id = normalize_value (c_botId nl_client),
                                      bot_name = normalize_value (c_botId nl_client), deployer_id = []\<rparr>,
                          timestamp = now_seconds 1700000000123, error = None, revoked = None\<rparr>
                    else plain_result (now_seconds 1700000000123))"
    using sent_request_checked [OF nl_sent demo_parsed path query range target meth wire
            delivered_header delivered_header delivered_header b sig serving_fresh reg ok200 refl]
    by blast
  have sm: "spec_signed_message (1700000000123 div 1000) (normalize_value (c_botId nl_client))
              (case init_method demo_init of None \<Rightarrow> ''GET'' | Some m \<Rightarrow> m) (pathname demo_url) = ?m2"
    by (simp add: client_botIds demo_init_def demo_url_def demo_message)
  have "signature = toString_hex (demo_key 7 @ Buffer_from ?m1)"
    using a hs s0_eq by simp
  then have "ok = (Buffer_from ?m1 @ Buffer_from_hex [] = Buffer_from ?m2)"
    using c demo_verify [of ?m2 ?m1 "[]"] by (simp only: sm append_Nil2) simp
  moreover have "length (Buffer_from ?m1) \<noteq> length (Buffer_from ?m2)"
    by (simp add: Buffer_from_def utf8_unit_def)
  ultimately have "\<not> ok" by auto
  with d have final: "BotID (verifyBotID demo_host default_options serving_env ?req)
                      = Some (plain_result (Fin 1700000000))"
    by (simp add: now_seconds_def)
  from nl_sent m1 sign gs gb gt rebuilt differ final show ?thesis
    by (intro conjI)
qed

text \<open>
  Claim C4.  For every clock reading, with \<open>now\<close> its whole seconds,
  \<open>isTimestampValid(t)\<close> is true for every \<open>t\<close> with \<open>now - 300 <= t <= now + 300\<close>, and
  false for \<open>t = now - 301\<close> and for \<open>t = now + 301\<close>.
\<close>

theorem isTimestampValid_window:
  "(of_int (ms div 1000) - 300 \<le> t \<and> t \<le> of_int (ms div 1000) + 300
      \<longrightarrow> isTimestampValid ms (Fin t))
   \<and> \<not> isTimestampValid ms (Fin (of_int (ms div 1000) - 301))
   \<and> \<not> isTimestampValid ms (Fin (of_int (ms div 1000) + 301))"
  by (auto simp add: isTimestampValid_Fin abs_le_iff)

theorem isTimestampValid_window_witness:
  "isTimestampValid 1700000000999 (Fin 1700000300)
   \<and> \<not> isTimestampValid 1700000000999 (Fin 1699999699)
   \<and> \<not> isTimestampValid 1700000000999 (Fin 1700000301)"
  using isTimestampValid_window [of 1700000000999 1700000300] by simp

text \<open>
  Claim C5.  The claim: for every message, signature string and public-key string, also
  strings that are not hexadecimal and malformed signatures, \<open>verifySignature\<close> never
  raises, and on any decode failure it returns false.  The code does not raise
  (\<open>verifySignature_returns\<close>), but it does not return false on every malformed
  signature string: \<open>Buffer.from(s, "hex")\<close> never fails, it decodes the leading pairs of
  hexadecimal digits and drops the rest.  So a signature that verifies still verifies
  with \<open>zz\<close>, or with any single character, appended to its hexadecimal string.
\<close>

theorem trailing_garbage_verifies:
  assumes "createPublicKey h (Buffer_from_hex publicKeyHex) = Inr pk"
      and "crypto_verify h (Buffer_from message) pk sg = Inr True"
  shows "verifySignature h message (toString_hex sg @ ''zz'') publicKeyHex = Inr True
         \<and> verifySignature h message (toString_hex sg @ [c]) publicKeyHex = Inr True"
proof -
  have "Buffer_from_hex ''zz'' = []"
    by (simp add: is_digit_of_def digit_table_def)
  moreover have "Buffer_from_hex [c] = []"
    by simp
  ultimately show ?thesis
    using assms by (simp add: verifySignature_def verifySignature_try_def hex_decode_append)
qed

theorem trailing_garbage_verifies_witness:
  "signMessage demo_host ''test'' (snd (generateKeypair demo_host 7))
     = Inr (toString_hex (demo_key 7 @ Buffer_from ''test''))
   \<and> verifySignature demo_host ''test'' (toString_hex (demo_key 7 @ Buffer_from ''test'') @ ''zz'')
       (fst (generateKeypair demo_host 7)) = Inr True
   \<and> verifySignature demo_host ''test'' (toString_hex (demo_key 7 @ Buffer_from ''test'') @ ''a'')
       (fst (generateKeypair demo_host 7)) = Inr True"
proof -
  have ok: "crypto_verify demo_host (Buffer_from ''test'') (demo_key 7) (demo_key 7 @ Buffer_from ''test'')
            = Inr True"
    by (simp add: demo_host_def)
  from trailing_garbage_verifies [OF demo_public_key ok, of "CHR ''a''"] demo_sign [of "''test''"]
  show ?thesis by simp
qed

text \<open>
  Claim C6.  For every message \<open>m\<close> and every key pair \<open>(pub, priv)\<close> that
  \<open>generateKeypair\<close> produces, \<open>verifySignature(m, signMessage(m, priv), pub)\<close> is true.
  The host's part is assumed of \<open>node:crypto\<close>: the exported keys import to the keys they
  were exported from, and the signature of \<open>m\<close> under the private key verifies under
  the public key.
\<close>

theorem sign_verify_roundtrip:
  assumes "generateKeyPairSync h entropy = (pk, sk)"
      and "createPublicKey h (export_spki h pk) = Inr pk"
      and "createPrivateKey h (export_pkcs8 h sk) = Inr sk"
      and "crypto_sign h (Buffer_from m) sk = Inr sg"
      and "crypto_verify h (Buffer_from m) pk sg = Inr True"
      and "generateKeypair h entropy = (pub, priv)"
  shows "\<exists>sig. signMessage h m priv = Inr sig \<and> verifySignature h m sig pub = Inr True"
  using assms
  by (auto simp add: generateKeypair_def signMessage_def verifySignature_def verifySignature_try_def
        hex_roundtrip)

theorem sign_verify_roundtrip_witness:
  "\<exists>sig. signMessage demo_host ''1700000000.bot_1.GET./data'' (snd (generateKeypair demo_host 7)) = Inr sig
         \<and> verifySignature demo_host ''1700000000.bot_1.GET./data'' sig (fst (generateKeypair demo_host 7))
             = Inr True"
proof -
  let ?m = "''1700000000.bot_1.GET./data''"
  have gen: "generateKeyPairSync demo_host 7 = (demo_key 7, demo_key 7)"
    by (simp add: demo_host_def)
  have pub: "createPublicKey demo_host (export_spki demo_host (demo_key 7)) = Inr (demo_key 7)"
    by (simp add: demo_host_def demo_key_def demo_spki_prefix_def)
  have priv: "createPrivateKey demo_host (export_pkcs8 demo_host (demo_key 7)) = Inr (demo_key 7)"
    by (simp add: demo_host_def demo_key_def demo_pkcs8_prefix_def)
  have sg: "crypto_sign demo_host (Buffer_from ?m) (demo_key 7) = Inr (demo_key 7 @ Buffer_from ?m)"
    by (simp add: demo_host_def)
  have ok: "crypto_verify demo_host (Buffer_from ?m) (demo_key 7) (demo_key 7 @ Buffer_from ?m) = Inr True"
    by (simp add: demo_host_def)
  have pair: "generateKeypair demo_host 7
              = (fst (generateKeypair demo_host 7), snd (generateKeypair demo_host 7))"
    by simp
  from sign_verify_roundtrip [OF gen pub priv sg ok pair] show ?thesis .
qed

text \<open>
  Claim C7.  In the poll loop of \<open>deviceLogin\<close>, a poll response with status
  \<open>complete\<close> that carries an access token (a string that is not empty, which is what
  the code tests) ends the flow in success: \<open>deviceLogin\<close> saves the session
  \<open>{accessToken, apiUrl, authenticatedAt}\<close>, made of the token, the normalized registry
  URL and the time of saving, to the session file and returns the token.  The response
  is reached after any number of turns that keep the loop polling.
\<close>

theorem deviceLogin_complete:
  assumes "requestDeviceCode (code_reply w) = Inr code"
      and "polls w = pre @ ev # rest"
      and "list_all (keeps_polling code (started w)) pre"
      and "at_check ev - started w < expiresIn code * 1000"
      and "pollDeviceAuth (poll_reply ev) = Inr poll"
      and "status poll = ''complete''"
      and "poll_accessToken poll = Some token"
      and "token \<noteq> []"
      and "session = \<lparr>accessToken = token, session_apiUrl = normalizeUrl (dl_apiUrl options),
                       authenticatedAt = saved_at ev\<rparr>"
  shows "snd (deviceLogin options w f) = Some (Inr token, saveAuthSession session f)
         \<and> fst (getAuthSession (saveAuthSession session f)) = Some (JSON_of_session session)"
proof -
  have "poll_loop (normalizeUrl (dl_apiUrl options)) code (started w) (pre @ ev # rest) f
        = poll_loop (normalizeUrl (dl_apiUrl options)) code (started w) (ev # rest) f"
    using assms(3) by (rule poll_loop_skip)
  also have "\<dots> = Some (Inr token, saveAuthSession session f)"
    unfolding assms(9) using assms(4-8) by (rule poll_loop_complete)
  finally show ?thesis
    using assms(1,2) by (simp add: deviceLogin_def getAuthSession_saved)
qed

theorem deviceLogin_complete_witness:
  "snd (deviceLogin \<lparr>dl_apiUrl = None, has_onOpen = True\<rparr> demo_world empty_fs)
     = Some (Inr ''token_xyz'',
             \<lparr>dir_mode = Some 448, credentials_file = None,
              auth_file = Some (384, Parses (JObj [(''accessToken'', JStr ''token_xyz''),
                                                  (''apiUrl'', JStr ''https://botid.net''),
                                                  (''authenticatedAt'', JStr ''2023-11-14T22:13:30.004Z'')]))\<rparr>)"
proof -
  let ?complete = "\<lparr>status = ''complete'', poll_accessToken = Some ''token_xyz'', poll_error = None\<rparr>"
  let ?session = "\<lparr>accessToken = ''token_xyz'',
                    session_apiUrl = normalizeUrl (dl_apiUrl \<lparr>dl_apiUrl = None, has_onOpen = True\<rparr>),
                    authenticatedAt = saved_at complete_turn\<rparr>"
  have code: "requestDeviceCode (code_reply demo_world) = Inr demo_code"
    by (simp add: requestDeviceCode_def demo_world_def response_ok_def)
  have turns: "polls demo_world = [pending_turn] @ complete_turn # []"
    by (simp add: demo_world_def)
  have pre: "list_all (keeps_polling demo_code (started demo_world)) [pending_turn]"
    by (simp add: keeps_polling_def demo_code_def demo_world_def pending_turn_def pollDeviceAuth_def
          response_ok_def)
  have intime: "at_check complete_turn - started demo_world < expiresIn demo_code * 1000"
    by (simp add: complete_turn_def demo_world_def demo_code_def)
  have reply: "pollDeviceAuth (poll_reply complete_turn) = Inr ?complete"
    by (simp add: pollDeviceAuth_def complete_turn_def response_ok_def)
  have st: "status ?complete = ''complete''" and tok: "poll_accessToken ?complete = Some ''token_xyz''"
    and ne: "''token_xyz'' \<noteq> []"
    by simp_all
  have saved: "saveAuthSession ?session empty_fs
               = \<lparr>dir_mode = Some 448, credentials_file = None,
                  auth_file = Some (384, Parses (JObj [(''accessToken'', JStr ''token_xyz''),
                                                      (''apiUrl'', JStr ''https://botid.net''),
                                                      (''authenticatedAt'', JStr ''2023-11-14T22:13:30.004Z'')]))\<rparr>"
    by (simp add: saveAuthSession_def ensureDir_def writeFileSync_def empty_fs_def JSON_of_session_def
          normalizeUrl_def DEFAULT_API_URL_def complete_turn_def)
  from deviceLogin_complete [OF code turns pre intime reply st tok ne refl,
         where f = empty_fs and options = "\<lparr>dl_apiUrl = None, has_onOpen = True\<rparr>"] saved
  show ?thesis by simp
qed

text \<open>
  Claim C8.  The claim: when the credentials file or the session file is corrupted or
  unreadable, every read of the store treats it as an empty map or an absent session
  and never raises.  The code on a store whose files hold the JSON text \<open>{}\<close>, which
  parses but is no credentials map and no session: \<open>getCredentials\<close> throws a
  \<open>TypeError\<close> for every name, \<open>listAgents\<close> throws a \<open>TypeError\<close>, and \<open>getAuthSession\<close>
  returns the empty object as the session.
\<close>

theorem wrong_shape_store_raises:
  "fst (getCredentials name braces_fs) = Inl (TypeError ''Cannot read properties of undefined'')
   \<and> fst (listAgents braces_fs) = Inl (TypeError ''Cannot convert undefined or null to object'')
   \<and> fst (getAuthSession braces_fs) = Some (JObj [])"
  by (simp add: getCredentials_def listAgents_def getAuthSession_def readStore_def ensureDir_def
        braces_fs_def js_get_def Object_keys_def)

text \<open>
  Claim C9, as amended.  A request carries all three identity headers, and the value of
  the timestamp header does not convert to a number: \<open>Number\<close> of it is \<open>NaN\<close>, as for
  \<open>abc\<close>.  Then the middleware takes the stale-timestamp branch: it never fetches from
  the registry, it attaches the result with the error \<open>Timestamp outside valid window\<close>,
  and with \<open>enforce\<close> on and no callback it responds 403 with that error.
\<close>

theorem nan_timestamp_is_stale:
  assumes "truthy (getHeader req HEADER_BOT_ID) = Some botId"
      and "truthy (getHeader req HEADER_SIGNATURE) = Some signature"
      and "truthy (getHeader req HEADER_TIMESTAMP) = Some timestampRaw"
      and "Number timestampRaw = NaN"
  shows "fetched (verifyBotID h options env req) = []
         \<and> BotID (verifyBotID h options env req)
             = Some \<lparr>verified = False, bot = None, timestamp = NaN,
                     error = Some ''Timestamp outside valid window'', revoked = None\<rparr>
         \<and> (enforcing options \<and> onUnverified options = None \<longrightarrow>
              act (verifyBotID h options env req) =
                Respond 403 \<lparr>body_error = ''Timestamp outside valid window'', body_revoked = None\<rparr>)"
  using assms
  by (simp add: verifyBotID_def isTimestampValid_NaN reject_def)

theorem nan_timestamp_is_stale_witness:
  "Number ''abc'' = NaN
   \<and> fetched (verifyBotID demo_host default_options revoking_env (get_data (identity_headers ''abc''))) = []
   \<and> act (verifyBotID demo_host default_options revoking_env (get_data (identity_headers ''abc'')))
       = Respond 403 \<lparr>body_error = ''Timestamp outside valid window'', body_revoked = None\<rparr>"
proof -
  have on: "enforcing default_options \<and> onUnverified default_options = None"
    by (simp add: enforcing_def default_options_def)
  from nan_timestamp_is_stale [of "get_data (identity_headers ''abc'')" "''bot_1''" "''00''" "''abc''"
         demo_host default_options revoking_env] on
  show ?thesis by (simp add: identity_headers_present Number_abc)
qed

text \<open>
  Claim C9 as it was stated fails: the timestamp header \<open>0x6553F100\<close> is no decimal
  number, yet \<open>Number\<close> reads it as 1700000000.  With the clock at that second the
  middleware, enforcing and without a callback, goes on to the registry lookup and
  answers from the registry's reply, not with \<open>Timestamp outside valid window\<close>.
\<close>

theorem hex_timestamp_reaches_registry:
  "\<not> is_decimal_number ''0x6553F100''
   \<and> truthy (getHeader (get_data (identity_headers ''0x6553F100'')) HEADER_BOT_ID) = Some ''bot_1''
   \<and> truthy (getHeader (get_data (identity_headers ''0x6553F100'')) HEADER_SIGNATURE) = Some ''00''
   \<and> truthy (getHeader (get_data (identity_headers ''0x6553F100'')) HEADER_TIMESTAMP) = Some ''0x6553F100''
   \<and> enforcing default_options
   \<and> onUnverified default_options = None
   \<and> fetched (verifyBotID demo_host default_options revoking_env (get_data (identity_headers ''0x6553F100'')))
       = [''https://botid.net/api/keys/bot_1'']
   \<and> act (verifyBotID demo_host default_options revoking_env (get_data (identity_headers ''0x6553F100'')))
       = Respond 403 \<lparr>body_error = ''Bot identity has been revoked'', body_revoked = Some True\<rparr>"
proof -
  have fresh: "isTimestampValid (clock revoking_env) (Number ''0x6553F100'')"
    by (simp add: Number_hex isTimestampValid_Fin revoking_env_def)
  have reg: "registry revoking_env (keys_url default_options ''bot_1'')
             = Response 403 (JsonObject (Some True) None)"
    by (simp add: revoking_env_def)
  have on: "enforcing default_options" "onUnverified default_options = None"
    by (simp_all add: enforcing_def default_options_def)
  show ?thesis
    using fresh reg on
    by (simp add: hex_not_decimal identity_headers_present verifyBotID_def lookup_and_verify_def
          revoked_flag_def reject_def default_keys_url)
qed

text \<open>
  Claim C10.  An identity header whose value is the empty string is treated as an
  absent header: the middleware does the same on a request with the header set to the
  empty string as on the request without it.  A request whose three identity headers
  are all present and all empty takes the no-identity branch, which with \<open>enforce\<close> on
  and no callback responds 403 \<open>BotID verification required\<close>.
\<close>

theorem empty_header_is_absent:
  "verifyBotID h options env (req\<lparr>headers := (headers req)(name \<mapsto> Single [])\<rparr>)
     = verifyBotID h options env (req\<lparr>headers := (headers req)(name := None)\<rparr>)
   \<and> (headers req (toLowerCase HEADER_BOT_ID) = Some (Single [])
       \<and> headers req (toLowerCase HEADER_SIGNATURE) = Some (Single [])
       \<and> headers req (toLowerCase HEADER_TIMESTAMP) = Some (Single [])
       \<and> enforcing options \<and> onUnverified options = None
      \<longrightarrow> act (verifyBotID h options env req)
            = Respond 403 \<lparr>body_error = ''BotID verification required'', body_revoked = None\<rparr>)"
proof -
  have "verifyBotID h options env (req\<lparr>headers := (headers req)(name \<mapsto> Single [])\<rparr>)
        = verifyBotID h options env (req\<lparr>headers := (headers req)(name := None)\<rparr>)"
    unfolding verifyBotID_def getHeader_empty lookup_headers_irrelevant by (rule refl)
  then show ?thesis
    by (simp add: verifyBotID_def getHeader_def truthy_def reject_def)
qed

theorem empty_header_is_absent_witness:
  "act (verifyBotID demo_host default_options revoking_env (get_data empty_headers))
     = Respond 403 \<lparr>body_error = ''BotID verification required'', body_revoked = None\<rparr>
   \<and> verifyBotID demo_host default_options revoking_env
        ((get_data Map.empty)\<lparr>headers := (headers (get_data Map.empty))(''x-botid'' \<mapsto> Single [])\<rparr>)
     = verifyBotID demo_host default_options revoking_env
        ((get_data Map.empty)\<lparr>headers := (headers (get_data Map.empty))(''x-botid'' := None)\<rparr>)"
proof -
  have hs: "headers (get_data empty_headers) (toLowerCase HEADER_BOT_ID) = Some (Single [])"
      "headers (get_data empty_headers) (toLowerCase HEADER_SIGNATURE) = Some (Single [])"
      "headers (get_data empty_headers) (toLowerCase HEADER_TIMESTAMP) = Some (Single [])"
    by (simp_all add: header_names get_data_def empty_headers_def)
  have on: "enforcing default_options \<and> onUnverified default_options = None"
    by (simp add: enforcing_def default_options_def)
  from empty_header_is_absent [of demo_host default_options revoking_env "get_data empty_headers" "''x-botid''"]
       empty_header_is_absent [of demo_host default_options revoking_env "get_data Map.empty" "''x-botid''"]
       hs on
  show ?thesis by simp
qed

end
